theory Spec2Isabelle
  imports Complex_Main
begin

section \<open>Force calculation of ESPResSo: a shallow embedding\<close>

text \<open>
  The development follows \<^verbatim>\<open>src/core/forces.cpp\<close> and
  \<^verbatim>\<open>src/core/nonbonded_interactions/gb.cpp\<close>. The third file at hand,
  \<^verbatim>\<open>src/core/virtual_sites/VirtualSites.hpp\<close>, declares the abstract interface of
  the implementations of virtual sites; the two files call none of its functions.

  Conventions of the embedding:
  \<^item> the seeding of the accumulators, the test of the loop over the OIF objects and the
    Gay-Berne parameters are modelled with a C++ \<^verbatim>\<open>double\<close> as a \<^typ>\<open>real\<close>: a
    finite value, with exact arithmetic; a \<^verbatim>\<open>Utils::Vector3d\<close> is then a triple of
    reals;
  \<^item> force capping is modelled for every number type and every arithmetic on it: the
    arithmetic is a parameter. Two arithmetics are defined: the exact one on the
    reals, and IEEE 754 binary64 with rounding to nearest, ties to even, with
    overflow, gradual underflow, infinities and NaN;
  \<^item> a \<^verbatim>\<open>ParticleRange\<close> is the list of the particles it iterates over, in
    iteration order; a loop that mutates every particle of a range is a \<open>map\<close>;
  \<^item> a preprocessor switch (\<^verbatim>\<open>#ifdef EXTERNAL_FORCES\<close>) is a boolean field of the
    record \<open>features\<close>: one value of the record is one build of the program;
  \<^item> code of the program that is not part of the two files (the cell structure, the
    short-range loop, the long-range solvers, ...) is a parameter of the model.
\<close>

subsection \<open>Vectors\<close>

type_synonym Vector3d = "real \<times> real \<times> real"

definition vzero :: Vector3d where
  "vzero = (0, 0, 0)"

text \<open>\<^verbatim>\<open>operator+=\<close> on vectors.\<close>

fun vadd :: "Vector3d \<Rightarrow> Vector3d \<Rightarrow> Vector3d" where
  "vadd (a1, a2, a3) (b1, b2, b3) = (a1 + b1, a2 + b2, a3 + b3)"

text \<open>Product of a scalar and a vector (\<^verbatim>\<open>operator*\<close>, \<^verbatim>\<open>operator*=\<close>).\<close>

fun vscale :: "real \<Rightarrow> Vector3d \<Rightarrow> Vector3d" where
  "vscale s (a1, a2, a3) = (s * a1, s * a2, s * a3)"

text \<open>The squared Euclidean length of a vector of reals.\<close>

fun norm2 :: "Vector3d \<Rightarrow> real" where
  "norm2 (a1, a2, a3) = a1 * a1 + a2 * a2 + a3 * a3"

text \<open>The square of a real.\<close>

definition sqr :: "real \<Rightarrow> real" where
  "sqr x = x * x"

text \<open>
  The magnitude and the direction (unit vector) of a vector. The program computes
  neither as such: they are the notions in which the properties of force capping are
  stated.
\<close>

definition vnorm :: "Vector3d \<Rightarrow> real" where
  "vnorm a = sqrt (norm2 a)"

definition vdirection :: "Vector3d \<Rightarrow> Vector3d" where
  "vdirection a = vscale (1 / vnorm a) a"

subsection \<open>Particles\<close>

text \<open>
  \<^verbatim>\<open>ParticleForce\<close>: the force and torque accumulator of a particle. The C++ members
  are \<^verbatim>\<open>f\<close> and \<^verbatim>\<open>torque\<close>.
\<close>

record 'd ParticleForce =
  pf_f :: "'d \<times> 'd \<times> 'd"
  pf_torque :: "'d \<times> 'd \<times> 'd"

text \<open>The value-initialised accumulator \<^verbatim>\<open>ParticleForce f = {}\<close>.\<close>

definition ParticleForce_zero :: "real ParticleForce" where
  "ParticleForce_zero = \<lparr>pf_f = vzero, pf_torque = vzero\<rparr>"

record 'd ParticleParametersSwimming =
  swimming :: bool
  f_swim :: 'd
  is_engine_force_on_fluid :: bool

text \<open>
  The fields of a particle that the force calculation reads or writes. The class
  \<^verbatim>\<open>Particle\<close> is declared outside the two files; every function below is
  polymorphic in the record's extension, which stands for all fields not listed.
  The type \<open>'d\<close> is the type of the numbers (\<^verbatim>\<open>double\<close>).
\<close>

record 'd Particle =
  p_id :: int
  p_type :: int
  pos :: "'d \<times> 'd \<times> 'd"
  vel :: "'d \<times> 'd \<times> 'd"
  force_and_torque :: "'d ParticleForce"
  ext_force :: "'d \<times> 'd \<times> 'd"
  ext_torque :: "'d \<times> 'd \<times> 'd"
  p_swimming :: "'d ParticleParametersSwimming"

text \<open>The accessors \<^verbatim>\<open>p.force()\<close> and \<^verbatim>\<open>p.torque()\<close>.\<close>

definition force :: "('d, 'a) Particle_scheme \<Rightarrow> 'd \<times> 'd \<times> 'd" where
  "force p = pf_f (force_and_torque p)"

definition torque :: "('d, 'a) Particle_scheme \<Rightarrow> 'd \<times> 'd \<times> 'd" where
  "torque p = pf_torque (force_and_torque p)"

text \<open>Assignment through the reference \<^verbatim>\<open>p.force()\<close>.\<close>

definition set_force ::
  "'d \<times> 'd \<times> 'd \<Rightarrow> ('d, 'a) Particle_scheme \<Rightarrow> ('d, 'a) Particle_scheme" where
  "set_force fv p = p\<lparr>force_and_torque := (force_and_torque p)\<lparr>pf_f := fv\<rparr>\<rparr>"

subsection \<open>Build configuration\<close>

record features =
  EXTERNAL_FORCES :: bool
  ROTATION :: bool
  ENGINE :: bool
  CUDA :: bool
  COLLISION_DETECTION :: bool
  ELECTROSTATICS :: bool
  DIPOLES :: bool
  NPT :: bool
  VIRTUAL_SITES_RELATIVE :: bool

subsection \<open>Initialisation of the accumulators\<close>

text \<open>
  \<^verbatim>\<open>external_force\<close>. The director \<^verbatim>\<open>p.calc_director()\<close> is computed from the
  particle's orientation by code outside the two files: it is the parameter
  \<open>calc_director\<close>.
\<close>

definition external_force ::
  "features \<Rightarrow> ((real, 'a) Particle_scheme \<Rightarrow> Vector3d) \<Rightarrow> (real, 'a) Particle_scheme \<Rightarrow>
   real ParticleForce" where
  "external_force feat calc_director p =
     (let f0 = ParticleForce_zero;
          f1 = (if EXTERNAL_FORCES feat
                then (let g = f0\<lparr>pf_f := vadd (pf_f f0) (ext_force p)\<rparr>
                      in if ROTATION feat
                         then g\<lparr>pf_torque := vadd (pf_torque g) (ext_torque p)\<rparr>
                         else g)
                else f0);
          f2 = (if ENGINE feat
                then (if swimming (p_swimming p) \<and> \<not> is_engine_force_on_fluid (p_swimming p)
                      then f1\<lparr>pf_f := vadd (pf_f f1)
                                          (vscale (f_swim (p_swimming p)) (calc_director p))\<rparr>
                      else f1)
                else f1)
      in f2)"

text \<open>\<^verbatim>\<open>init_forces_ghosts\<close>: every particle of the range gets the zero accumulator.\<close>

definition init_forces_ghosts ::
  "(real, 'a) Particle_scheme list \<Rightarrow> (real, 'a) Particle_scheme list" where
  "init_forces_ghosts particles =
     map (\<lambda>p. p\<lparr>force_and_torque := ParticleForce_zero\<rparr>) particles"

text \<open>
  \<^verbatim>\<open>init_forces\<close>: the result is the pair of the updated local particles and the
  updated ghost particles.
\<close>

definition init_forces ::
  "features \<Rightarrow> ((real, 'a) Particle_scheme \<Rightarrow> Vector3d) \<Rightarrow>
   (real, 'a) Particle_scheme list \<Rightarrow> (real, 'a) Particle_scheme list \<Rightarrow>
   (real, 'a) Particle_scheme list \<times> (real, 'a) Particle_scheme list" where
  "init_forces feat calc_director particles ghost_particles =
     (map (\<lambda>p. p\<lparr>force_and_torque := external_force feat calc_director p\<rparr>) particles,
      init_forces_ghosts ghost_particles)"

subsection \<open>Arithmetic of \<^verbatim>\<open>double\<close>\<close>

text \<open>
  The operations of \<^verbatim>\<open>double\<close> that force capping uses: the literal \<^verbatim>\<open>0.\<close>,
  \<^verbatim>\<open>+\<close>, \<^verbatim>\<open>*\<close>, \<^verbatim>\<open>/\<close>, \<^verbatim>\<open>std::sqrt\<close> and \<^verbatim>\<open>>\<close>.
\<close>

record 'd arith =
  d_zero :: 'd
  d_add :: "'d \<Rightarrow> 'd \<Rightarrow> 'd"
  d_mul :: "'d \<Rightarrow> 'd \<Rightarrow> 'd"
  d_div :: "'d \<Rightarrow> 'd \<Rightarrow> 'd"
  d_sqrt :: "'d \<Rightarrow> 'd"
  d_gt :: "'d \<Rightarrow> 'd \<Rightarrow> bool"

text \<open>The exact arithmetic of the reals.\<close>

definition exact_arith :: "real arith" where
  "exact_arith =
     \<lparr>d_zero = 0, d_add = (+), d_mul = (*), d_div = (/), d_sqrt = sqrt,
      d_gt = (\<lambda>a b. a > b)\<rparr>"

text \<open>
  IEEE 754 binary64. A value is a finite real, an infinity or NaN. Every operation
  rounds its exact result once (no fused multiply-add, no extended precision), so the
  result of an operation on finite values is a number of the format if it is finite.
  The sign of zero is not modelled: it has no influence on the results of \<^verbatim>\<open>+\<close>,
  \<^verbatim>\<open>*\<close>, \<^verbatim>\<open>std::sqrt\<close> and \<^verbatim>\<open>>\<close> other than on the sign of a zero result,
  and a division by zero takes the zero as positive (force capping never divides by
  zero: it divides by the square root of a number greater than a square).
\<close>

datatype double = Finite real | PInf | NInf | NaN

text \<open>The power of two with an integer exponent.\<close>

definition pow2 :: "int \<Rightarrow> real" where
  "pow2 e = (if 0 \<le> e then 2 ^ nat e else 1 / 2 ^ nat (- e))"

text \<open>Rounding of a real to an integer: to the nearest one, and to the even one at a tie.\<close>

definition round_to_even :: "real \<Rightarrow> int" where
  "round_to_even y =
     (let n = \<lfloor>y\<rfloor>; d = y - of_int n
      in if d < 1 / 2 then n else if 1 / 2 < d then n + 1 else if even n then n else n + 1)"

text \<open>
  The rounding of an exact result \<open>x\<close> to binary64: the significand has 53 bits, so
  the unit in the last place of a value with \<open>2\<^sup>k \<le> \<bar>x\<bar> < 2\<^sup>k\<^sup>+\<^sup>1\<close> is
  \<open>2\<^sup>k\<^sup>-\<^sup>5\<^sup>2\<close>, and not less than \<open>2\<^sup>-\<^sup>1\<^sup>0\<^sup>7\<^sup>4\<close> (subnormal numbers). A rounded
  value of magnitude \<open>2\<^sup>1\<^sup>0\<^sup>2\<^sup>4\<close> or more overflows to an infinity.
\<close>

definition fl :: "real \<Rightarrow> double" where
  "fl x =
     (if x = 0 then Finite 0
      else (let e = max (\<lfloor>log 2 \<bar>x\<bar>\<rfloor> - 52) (- 1074);
                r = of_int (round_to_even (x / pow2 e)) * pow2 e
            in if 2 ^ 1024 \<le> \<bar>r\<bar> then (if 0 < x then PInf else NInf) else Finite r))"

fun ieee_add :: "double \<Rightarrow> double \<Rightarrow> double" where
  "ieee_add (Finite a) (Finite b) = fl (a + b)"
| "ieee_add NaN _ = NaN"
| "ieee_add _ NaN = NaN"
| "ieee_add PInf NInf = NaN"
| "ieee_add NInf PInf = NaN"
| "ieee_add PInf _ = PInf"
| "ieee_add _ PInf = PInf"
| "ieee_add NInf _ = NInf"
| "ieee_add _ NInf = NInf"

text \<open>The sign of a product or quotient with an infinity: positive, negative or none.\<close>

fun signed_inf :: "bool \<Rightarrow> double" where
  "signed_inf positive = (if positive then PInf else NInf)"

fun ieee_mul :: "double \<Rightarrow> double \<Rightarrow> double" where
  "ieee_mul (Finite a) (Finite b) = fl (a * b)"
| "ieee_mul NaN _ = NaN"
| "ieee_mul _ NaN = NaN"
| "ieee_mul (Finite a) PInf = (if a = 0 then NaN else signed_inf (0 < a))"
| "ieee_mul (Finite a) NInf = (if a = 0 then NaN else signed_inf (a < 0))"
| "ieee_mul PInf (Finite b) = (if b = 0 then NaN else signed_inf (0 < b))"
| "ieee_mul NInf (Finite b) = (if b = 0 then NaN else signed_inf (b < 0))"
| "ieee_mul PInf PInf = PInf"
| "ieee_mul NInf NInf = PInf"
| "ieee_mul PInf NInf = NInf"
| "ieee_mul NInf PInf = NInf"

fun ieee_div :: "double \<Rightarrow> double \<Rightarrow> double" where
  "ieee_div (Finite a) (Finite b) =
     (if b = 0 then (if a = 0 then NaN else signed_inf (0 < a)) else fl (a / b))"
| "ieee_div NaN _ = NaN"
| "ieee_div _ NaN = NaN"
| "ieee_div (Finite a) _ = Finite 0"
| "ieee_div PInf (Finite b) = signed_inf (0 \<le> b)"
| "ieee_div NInf (Finite b) = signed_inf (b < 0)"
| "ieee_div PInf PInf = NaN"
| "ieee_div PInf NInf = NaN"
| "ieee_div NInf PInf = NaN"
| "ieee_div NInf NInf = NaN"

fun ieee_sqrt :: "double \<Rightarrow> double" where
  "ieee_sqrt (Finite a) = (if a < 0 then NaN else fl (sqrt a))"
| "ieee_sqrt PInf = PInf"
| "ieee_sqrt _ = NaN"

fun ieee_gt :: "double \<Rightarrow> double \<Rightarrow> bool" where
  "ieee_gt (Finite a) (Finite b) = (a > b)"
| "ieee_gt NaN _ = False"
| "ieee_gt _ NaN = False"
| "ieee_gt PInf PInf = False"
| "ieee_gt PInf _ = True"
| "ieee_gt _ PInf = False"
| "ieee_gt NInf _ = False"
| "ieee_gt _ NInf = True"

definition ieee_arith :: "double arith" where
  "ieee_arith =
     \<lparr>d_zero = Finite 0, d_add = ieee_add, d_mul = ieee_mul, d_div = ieee_div,
      d_sqrt = ieee_sqrt, d_gt = ieee_gt\<rparr>"

subsection \<open>Force capping\<close>

text \<open>
  \<^verbatim>\<open>Utils::sqr\<close>, \<^verbatim>\<open>Vector::norm2()\<close> (the sum of the squares of the
  components, from the first to the last) and the product of a vector with a
  scalar (\<^verbatim>\<open>operator*=\<close>: every component is multiplied by the scalar), in the
  arithmetic \<open>A\<close>.
\<close>

definition sqr_in :: "'d arith \<Rightarrow> 'd \<Rightarrow> 'd" where
  "sqr_in A x = d_mul A x x"

fun norm2_in :: "'d arith \<Rightarrow> 'd \<times> 'd \<times> 'd \<Rightarrow> 'd" where
  "norm2_in A (a1, a2, a3) = d_add A (d_add A (d_mul A a1 a1) (d_mul A a2 a2)) (d_mul A a3 a3)"

fun vscale_in :: "'d arith \<Rightarrow> 'd \<Rightarrow> 'd \<times> 'd \<times> 'd \<Rightarrow> 'd \<times> 'd \<times> 'd" where
  "vscale_in A s (a1, a2, a3) = (d_mul A a1 s, d_mul A a2 s, d_mul A a3 s)"

text \<open>The body of the loop of \<^verbatim>\<open>force_capping\<close>, for one particle.\<close>

definition force_capping_particle ::
  "'d arith \<Rightarrow> 'd \<Rightarrow> ('d, 'a) Particle_scheme \<Rightarrow> ('d, 'a) Particle_scheme" where
  "force_capping_particle A force_cap p =
     (let force_cap_sq = sqr_in A force_cap;
          force_sq = norm2_in A (force p)
      in if d_gt A force_sq force_cap_sq
         then set_force (vscale_in A (d_div A force_cap (d_sqrt A force_sq)) (force p)) p
         else p)"

definition force_capping ::
  "'d arith \<Rightarrow> ('d, 'a) Particle_scheme list \<Rightarrow> 'd \<Rightarrow> ('d, 'a) Particle_scheme list" where
  "force_capping A particles force_cap =
     (if d_gt A force_cap (d_zero A)
      then map (force_capping_particle A force_cap) particles
      else particles)"

subsection \<open>The calls of \<^verbatim>\<open>calculate_forces\<close> into the rest of the program\<close>

text \<open>
  The arguments with which \<^verbatim>\<open>calculate_forces\<close> constructs the
  \<^verbatim>\<open>VerletCriterion\<close>, in the order of the constructor call.
\<close>

record VerletCriterion =
  vc_skin :: real
  vc_max_cut :: real
  vc_coulomb_cut :: real
  vc_dipolar_cut :: real
  vc_collision_detection_cutoff :: real

text \<open>
  The functions that \<^verbatim>\<open>calculate_forces\<close> calls and that are defined outside the
  two files. \<open>ShortRangeLoop\<close> carries \<^verbatim>\<open>maximal_cutoff()\<close>,
  \<^verbatim>\<open>maximal_cutoff_bonded()\<close> and the Verlet criterion; its two kernels (the bonded
  one around \<^verbatim>\<open>add_bonded_force\<close>, the non-bonded one around
  \<^verbatim>\<open>add_non_bonded_pair_force\<close> and \<^verbatim>\<open>detect_collision\<close>) are part of
  what the call does. \<open>AddOifGlobalForces\<close> carries the reduced area and volume
  and the index of the object.
\<close>

datatype call =
    GpuUpdate
  | PrepareLocalCollisionQueue
  | BondBreakageClearQueue
  | IccIteration
  | NptResetInstantaneousVirials
  | ThermostatsForceInit real
  | CoulombCalcLongRangeForce
  | DipolesCalcLongRangeForce
  | ShortRangeLoop real real VerletCriterion
  | ConstraintsAddForces
  | AddOifGlobalForces "real \<times> real" int
  | VolumeConservation
  | LbCoupleParticles real
  | GpuCopyForcesToHost
  | VsRelativeBackTransferForcesAndTorques
  | GhostsReduceForces
  | ComFixedApply

text \<open>
  One entry of the log of a run of \<^verbatim>\<open>calculate_forces\<close>: a call into the rest of
  the program, or one of the three steps that the file itself implements.
\<close>

datatype step =
    Call call
  | InitForces
  | ForceCapping
  | RecalcForcesFalse

text \<open>
  What the called functions work on: the local particles, the ghost particles, and
  all other state of the program (\<open>'w\<close>: queues, virials, the fluid, the device, ...).
\<close>

type_synonym ('a, 'w) store =
  "(real, 'a) Particle_scheme list \<times> (real, 'a) Particle_scheme list \<times> 'w"

text \<open>
  The parameters of the model:
  \<^item> \<open>run c\<close> is the effect of the call \<open>c\<close> on the store;
  \<^item> \<open>calc_oif_global i\<close> is the value of
    \<^verbatim>\<open>boost::mpi::all_reduce(comm_cart, calc_oif_global(i, ...), std::plus())\<close>:
    the reduced area and volume of object \<open>i\<close>;
  \<^item> \<open>calc_director\<close> is \<^verbatim>\<open>Particle::calc_director\<close>;
  \<^item> \<open>arith\<close> is the arithmetic in which \<^verbatim>\<open>calculate_forces\<close> caps the forces (in
    \<^verbatim>\<open>calculate_forces\<close> the numbers are reals, and any arithmetic on them can be
    given);
  \<^item> \<open>INACTIVE_CUTOFF\<close>, \<open>TRANS_VS_RELATIVE\<close> and \<open>ROT_VS_RELATIVE\<close> are the
    constants of these names.
\<close>

record ('a, 'w) env =
  run :: "call \<Rightarrow> ('a, 'w) store \<Rightarrow> ('a, 'w) store"
  calc_oif_global :: "int \<Rightarrow> ('a, 'w) store \<Rightarrow> real \<times> real"
  calc_director :: "(real, 'a) Particle_scheme \<Rightarrow> Vector3d"
  arith :: "real arith"
  INACTIVE_CUTOFF :: real
  TRANS_VS_RELATIVE :: int
  ROT_VS_RELATIVE :: int

text \<open>
  The values of the cutoff queries of the system: \<^verbatim>\<open>get_verlet_skin()\<close>,
  \<^verbatim>\<open>get_interaction_range()\<close>, \<^verbatim>\<open>maximal_cutoff()\<close>,
  \<^verbatim>\<open>maximal_cutoff_bonded()\<close>, \<^verbatim>\<open>coulomb.cutoff()\<close>,
  \<^verbatim>\<open>dipoles.cutoff()\<close> and \<^verbatim>\<open>collision_detection_cutoff()\<close>.
\<close>

record Cutoffs =
  get_verlet_skin :: real
  get_interaction_range :: real
  maximal_cutoff :: real
  maximal_cutoff_bonded :: real
  coulomb_cutoff :: real
  dipoles_cutoff :: real
  collision_detection_cutoff :: real

text \<open>
  The state of the system as far as \<^verbatim>\<open>calculate_forces\<close> is concerned.
  \<open>icc_extension\<close> holds when \<^verbatim>\<open>coulomb.impl->extension\<close> is set and holds an
  \<^verbatim>\<open>ICCStar\<close>; \<open>recalc_forces\<close> and \<open>used_propagations\<close> are the
  members of \<^verbatim>\<open>propagation\<close>; \<open>calls\<close> is the log of the steps taken so far.
  The called functions change the store only: the configuration is the same throughout
  a run.
\<close>

record ('a, 'w) System =
  local_particles :: "(real, 'a) Particle_scheme list"
  ghost_particles :: "(real, 'a) Particle_scheme list"
  world :: 'w
  cutoffs :: Cutoffs
  force_cap :: real
  time_step :: real
  max_oif_objects :: int
  icc_extension :: bool
  lb_is_solver_set :: bool
  used_propagations :: int
  recalc_forces :: bool
  calls :: "step list"

definition store :: "('a, 'w) System \<Rightarrow> ('a, 'w) store" where
  "store s = (local_particles s, ghost_particles s, world s)"

text \<open>A call into the rest of the program: its effect on the store, and the log entry.\<close>

definition invoke :: "('a, 'w) env \<Rightarrow> call \<Rightarrow> ('a, 'w) System \<Rightarrow> ('a, 'w) System" where
  "invoke e c s =
     (case run e c (store s) of
        (l, g, w) \<Rightarrow>
          s\<lparr>local_particles := l, ghost_particles := g, world := w,
            calls := calls s @ [Call c]\<rparr>)"

text \<open>A statement under \<^verbatim>\<open>#ifdef\<close> or \<^verbatim>\<open>if\<close> without \<^verbatim>\<open>else\<close>.\<close>

definition when_do :: "bool \<Rightarrow> ('s \<Rightarrow> 's) \<Rightarrow> 's \<Rightarrow> 's" where
  "when_do b f s = (if b then f s else s)"

text \<open>\<^verbatim>\<open>calc_long_range_forces\<close>.\<close>

definition calc_long_range_forces ::
  "features \<Rightarrow> ('a, 'w) env \<Rightarrow> ('a, 'w) System \<Rightarrow> ('a, 'w) System" where
  "calc_long_range_forces feat e s =
     when_do (DIPOLES feat) (invoke e DipolesCalcLongRangeForce)
       (when_do (ELECTROSTATICS feat) (invoke e CoulombCalcLongRangeForce) s)"

text \<open>
  The loop over the OIF objects of \<^verbatim>\<open>calculate_forces\<close>, from index \<open>i\<close> on.
  The \<^verbatim>\<open>break\<close> leaves the loop: the state is returned as it is.
\<close>

function oif_loop :: "('a, 'w) env \<Rightarrow> int \<Rightarrow> ('a, 'w) System \<Rightarrow> ('a, 'w) System" where
  "oif_loop e i s =
     (if i < max_oif_objects s
      then (let area_volume = calc_oif_global e i (store s);
                oif_part_area = \<bar>fst area_volume\<bar>;
                oif_part_vol = \<bar>snd area_volume\<bar>
            in if oif_part_area < 1 / 10 ^ 100 \<and> oif_part_vol < 1 / 10 ^ 100
               then s
               else oif_loop e (i + 1) (invoke e (AddOifGlobalForces area_volume i) s))
      else s)"
  by pat_completeness auto
termination
  by (relation "measure (\<lambda>(e, i, s). nat (max_oif_objects s - i))")
     (auto simp: invoke_def split: prod.splits)

declare oif_loop.simps [simp del]

text \<open>The Verlet criterion that \<^verbatim>\<open>calculate_forces\<close> hands to the short-range loop.\<close>

definition verlet_criterion :: "features \<Rightarrow> real \<Rightarrow> Cutoffs \<Rightarrow> VerletCriterion" where
  "verlet_criterion feat inactive_cutoff c =
     (let coulomb_cutoff = (if ELECTROSTATICS feat then coulomb_cutoff c else inactive_cutoff);
          dipole_cutoff = (if DIPOLES feat then dipoles_cutoff c else inactive_cutoff)
      in \<lparr>vc_skin = get_verlet_skin c,
          vc_max_cut = get_interaction_range c,
          vc_coulomb_cut = coulomb_cutoff,
          vc_dipolar_cut = dipole_cutoff,
          vc_collision_detection_cutoff = collision_detection_cutoff c\<rparr>)"

text \<open>
  \<^verbatim>\<open>System::calculate_forces\<close>. The ranges \<^verbatim>\<open>particles\<close> and
  \<^verbatim>\<open>ghost_particles\<close> are views of the cell structure: a step that works on them
  works on the particles of the current state. The profiling marks (\<^verbatim>\<open>CALIPER\<close>)
  are left out.
\<close>

definition calculate_forces ::
  "features \<Rightarrow> ('a, 'w) env \<Rightarrow> real \<Rightarrow> ('a, 'w) System \<Rightarrow> ('a, 'w) System" where
  "calculate_forces feat e kT s0 =
     (let s1 = when_do (CUDA feat) (invoke e GpuUpdate) s0;
          s2 = when_do (COLLISION_DETECTION feat) (invoke e PrepareLocalCollisionQueue) s1;
          s3 = invoke e BondBreakageClearQueue s2;
          s4 = when_do (ELECTROSTATICS feat \<and> icc_extension s3) (invoke e IccIteration) s3;
          s5 = when_do (NPT feat) (invoke e NptResetInstantaneousVirials) s4;
          s6 = (case init_forces feat (calc_director e) (local_particles s5) (ghost_particles s5) of
                  (l, g) \<Rightarrow> s5\<lparr>local_particles := l, ghost_particles := g,
                                calls := calls s5 @ [InitForces]\<rparr>);
          s7 = invoke e (ThermostatsForceInit kT) s6;
          s8 = calc_long_range_forces feat e s7;
          s9 = invoke e (ShortRangeLoop (maximal_cutoff (cutoffs s8))
                           (maximal_cutoff_bonded (cutoffs s8))
                           (verlet_criterion feat (INACTIVE_CUTOFF e) (cutoffs s8))) s8;
          s10 = invoke e ConstraintsAddForces s9;
          s11 = oif_loop e 0 s10;
          s12 = invoke e VolumeConservation s11;
          s13 = when_do (lb_is_solver_set s12) (invoke e (LbCoupleParticles (time_step s12))) s12;
          s14 = when_do (CUDA feat) (invoke e GpuCopyForcesToHost) s13;
          s15 = when_do (VIRTUAL_SITES_RELATIVE feat \<and>
                         and (used_propagations s14)
                             (or (TRANS_VS_RELATIVE e) (ROT_VS_RELATIVE e)) \<noteq> 0)
                  (invoke e VsRelativeBackTransferForcesAndTorques) s14;
          s16 = invoke e GhostsReduceForces s15;
          s17 = invoke e ComFixedApply s16;
          s18 = s17\<lparr>local_particles :=
                      force_capping (arith e) (local_particles s17) (force_cap s17),
                    calls := calls s17 @ [ForceCapping]\<rparr>;
          s19 = s18\<lparr>recalc_forces := False, calls := calls s18 @ [RecalcForcesFalse]\<rparr>
      in s19)"

subsection \<open>The list-validity cutoff of the Verlet criterion\<close>

text \<open>
  Modelled from the spec: the class \<^verbatim>\<open>VerletCriterion\<close>
  (\<^verbatim>\<open>nonbonded_interactions/VerletCriterion.hpp\<close>) is not part of the files at hand;
  only its construction in \<^verbatim>\<open>calculate_forces\<close> is. The specification says of
  it: the effective list-validity cutoff is the maximum of the Verlet skin and the
  cutoffs it is built from, and a cutoff that is inactive takes part in the maximum
  only when its feature is enabled. A cutoff is inactive when it is the sentinel
  \<^verbatim>\<open>INACTIVE_CUTOFF\<close>.
\<close>

definition effective_cutoff :: "real \<Rightarrow> VerletCriterion \<Rightarrow> real" where
  "effective_cutoff inactive_cutoff vc =
     Max (set (vc_skin vc #
               filter (\<lambda>c. c \<noteq> inactive_cutoff)
                 [vc_max_cut vc, vc_coulomb_cut vc, vc_dipolar_cut vc,
                  vc_collision_detection_cutoff vc]))"

subsection \<open>Parameters of the Gay-Berne interaction\<close>

text \<open>
  The member \<^verbatim>\<open>gb\<close> of \<^verbatim>\<open>IA_parameters\<close>; the C++ members are \<^verbatim>\<open>eps\<close>,
  \<^verbatim>\<open>sig\<close>, \<^verbatim>\<open>cut\<close>, \<^verbatim>\<open>k1\<close>, \<^verbatim>\<open>k2\<close>, \<^verbatim>\<open>mu\<close>, \<^verbatim>\<open>nu\<close>,
  \<^verbatim>\<open>chi1\<close> and \<^verbatim>\<open>chi2\<close>.
\<close>

record Gay_Berne_Parameters =
  gb_eps :: real
  gb_sig :: real
  gb_cut :: real
  gb_k1 :: real
  gb_k2 :: real
  gb_mu :: real
  gb_nu :: real
  gb_chi1 :: real
  gb_chi2 :: real

text \<open>
  \<^verbatim>\<open>IA_parameters\<close>: the parameters of all non-bonded interactions of one pair of
  particle types. The record's extension stands for the parameters of the other
  interactions.
\<close>

record IA_parameters =
  gb :: Gay_Berne_Parameters

text \<open>The return codes \<^verbatim>\<open>ES_OK\<close> and \<^verbatim>\<open>ES_ERROR\<close>.\<close>

datatype es_status = ES_OK | ES_ERROR

text \<open>
  The interaction parameters of the program, one record per ordered pair of particle
  types, and the log of the broadcasts \<^verbatim>\<open>mpi_bcast_ia_params\<close> issued so far.
\<close>

record 'a ia_state =
  ia_params :: "int \<times> int \<rightharpoonup> 'a IA_parameters_scheme"
  ia_bcasts :: "(int \<times> int) list"

text \<open>
  Modelled from the spec: \<^verbatim>\<open>get_ia_param_safe\<close> is declared outside the files at
  hand. The specification says of the interaction parameters that they are a
  configuration per ordered type pair, looked up by \<open>(type_a, type_b)\<close>. The result
  \<open>None\<close> is the null pointer; \<open>Some\<close> is a pointer to the record of the pair.
\<close>

definition get_ia_param_safe ::
  "(int \<times> int \<rightharpoonup> 'a IA_parameters_scheme) \<Rightarrow> int \<Rightarrow> int \<Rightarrow> 'a IA_parameters_scheme option" where
  "get_ia_param_safe tbl part_type_a part_type_b = tbl (part_type_a, part_type_b)"

text \<open>
  \<^verbatim>\<open>gay_berne_set_params\<close>. The function \<^verbatim>\<open>pow\<close> of the C library is the
  parameter \<open>pow\<close>. The writes through \<^verbatim>\<open>data\<close> go to the record of the pair in
  the table; the dependent parameters are computed from the members just written. The parameter
  \<^verbatim>\<open>cut\<close> is written \<open>cut'\<close>.
  \<^verbatim>\<open>mpi_bcast_ia_params\<close> sends the record of the pair to the other processes: here
  it is an entry of the log.
\<close>

definition gay_berne_set_params ::
  "(real \<Rightarrow> real \<Rightarrow> real) \<Rightarrow> 'a ia_state \<Rightarrow> int \<Rightarrow> int \<Rightarrow>
   real \<Rightarrow> real \<Rightarrow> real \<Rightarrow> real \<Rightarrow> real \<Rightarrow> real \<Rightarrow> real \<Rightarrow> es_status \<times> 'a ia_state" where
  "gay_berne_set_params pow st part_type_a part_type_b eps sig cut' k1 k2 mu nu =
     (case get_ia_param_safe (ia_params st) part_type_a part_type_b of
        None \<Rightarrow> (ES_ERROR, st)
      | Some data \<Rightarrow>
          (let g1 = (gb data)\<lparr>gb_eps := eps, gb_sig := sig, gb_cut := cut',
                              gb_k1 := k1, gb_k2 := k2, gb_mu := mu, gb_nu := nu\<rparr>;
               g2 = g1\<lparr>gb_chi1 := ((gb_k1 g1 * gb_k1 g1) - 1) / ((gb_k1 g1 * gb_k1 g1) + 1)\<rparr>;
               g3 = g2\<lparr>gb_chi2 := (pow (gb_k2 g2) (1 / gb_mu g2) - 1) /
                                    (pow (gb_k2 g2) (1 / gb_mu g2) + 1)\<rparr>
           in (ES_OK,
               st\<lparr>ia_params := (ia_params st)((part_type_a, part_type_b) \<mapsto> data\<lparr>gb := g3\<rparr>),
                  ia_bcasts := ia_bcasts st @ [(part_type_a, part_type_b)]\<rparr>)))"

subsection \<open>Notions used in the statements\<close>

text \<open>
  The test of the loop over the OIF objects: both reduced quantities are below the
  threshold.
\<close>

definition oif_degenerate :: "real \<times> real \<Rightarrow> bool" where
  "oif_degenerate area_volume =
     (\<bar>fst area_volume\<bar> < 1 / 10 ^ 100 \<and> \<bar>snd area_volume\<bar> < 1 / 10 ^ 100)"

text \<open>
  \<open>logs_only P s s'\<close>: the state \<open>s'\<close> has the log of \<open>s\<close> followed by steps
  that all satisfy \<open>P\<close>, and the propagation modes in use and the force cap are
  those of \<open>s\<close>.
\<close>

definition logs_only ::
  "(step \<Rightarrow> bool) \<Rightarrow> ('a, 'w) System \<Rightarrow> ('a, 'w) System \<Rightarrow> bool" where
  "logs_only P s s' =
     ((\<exists>xs. calls s' = calls s @ xs \<and> list_all P xs) \<and>
      used_propagations s' = used_propagations s \<and> force_cap s' = force_cap s)"

text \<open>The steps that end a run of \<^verbatim>\<open>calculate_forces\<close>.\<close>

definition tail_steps :: "step set" where
  "tail_steps =
     {Call VsRelativeBackTransferForcesAndTorques, Call GhostsReduceForces,
      Call ComFixedApply, ForceCapping, RecalcForcesFalse}"

text \<open>
  \<open>ends_run feat e s r\<close>: the state \<open>r\<close> is the end of a run of
  \<^verbatim>\<open>calculate_forces\<close> from the state \<open>s\<close>, as claim C4 describes it.
\<close>

definition ends_run ::
  "features \<Rightarrow> ('a, 'w) env \<Rightarrow> ('a, 'w) System \<Rightarrow> ('a, 'w) System \<Rightarrow> bool" where
  "ends_run feat e s r =
     ((\<exists>x pre.
        calls x = calls s @ pre \<and> set pre \<inter> tail_steps = {} \<and>
        store r =
          (case run e ComFixedApply
                  (run e GhostsReduceForces
                     (if VIRTUAL_SITES_RELATIVE feat \<and>
              and (used_propagations s) (or (TRANS_VS_RELATIVE e) (ROT_VS_RELATIVE e)) \<noteq> 0
                      then run e VsRelativeBackTransferForcesAndTorques (store x)
                      else store x)) of
             (l, g, w) \<Rightarrow> (force_capping (arith e) l (force_cap s), g, w)) \<and>
        calls r =
          calls x @
          (if VIRTUAL_SITES_RELATIVE feat \<and>
              and (used_propagations s) (or (TRANS_VS_RELATIVE e) (ROT_VS_RELATIVE e)) \<noteq> 0
           then [Call VsRelativeBackTransferForcesAndTorques] else []) @
          [Call GhostsReduceForces, Call ComFixedApply, ForceCapping, RecalcForcesFalse]) \<and>
     \<not> recalc_forces r)"

subsection \<open>Example data\<close>

text \<open>A build with every feature.\<close>

definition example_features :: features where
  "example_features =
     \<lparr>EXTERNAL_FORCES = True, ROTATION = True, ENGINE = True, CUDA = True,
      COLLISION_DETECTION = True, ELECTROSTATICS = True, DIPOLES = True, NPT = True,
      VIRTUAL_SITES_RELATIVE = True\<rparr>"

text \<open>A build without electrostatics and magnetostatics.\<close>

definition example_features_neutral :: features where
  "example_features_neutral =
     example_features\<lparr>ELECTROSTATICS := False, DIPOLES := False\<rparr>"

text \<open>
  A particle with identity \<open>n\<close>, force \<open>fv\<close> and external force \<open>ext\<close>, which
  is a swimmer if \<open>sw\<close>.
\<close>

definition example_particle :: "int \<Rightarrow> Vector3d \<Rightarrow> Vector3d \<Rightarrow> bool \<Rightarrow> real Particle" where
  "example_particle n fv ext sw =
     \<lparr>p_id = n, p_type = 0, pos = (1, 2, 3), vel = (0, 0, 0),
      force_and_torque = \<lparr>pf_f = fv, pf_torque = (0, 0, 1)\<rparr>,
      ext_force = ext, ext_torque = (0, 1, 0),
      p_swimming = \<lparr>swimming = sw, f_swim = 2, is_engine_force_on_fluid = False\<rparr>\<rparr>"

text \<open>A particle of binary64 numbers with force \<open>fv\<close>.\<close>

definition example_double_particle :: "double \<times> double \<times> double \<Rightarrow> double Particle" where
  "example_double_particle fv =
     \<lparr>p_id = 0, p_type = 0, pos = (Finite 1, Finite 2, Finite 3),
      vel = (Finite 0, Finite 0, Finite 0),
      force_and_torque = \<lparr>pf_f = fv, pf_torque = (Finite 0, Finite 0, Finite 1)\<rparr>,
      ext_force = (Finite 0, Finite 0, Finite 0), ext_torque = (Finite 0, Finite 0, Finite 0),
      p_swimming = \<lparr>swimming = False, f_swim = Finite 0, is_engine_force_on_fluid = False\<rparr>\<rparr>"

definition example_director :: "real Particle \<Rightarrow> Vector3d" where
  "example_director p = (0, 0, 1)"

text \<open>
  An environment in which object 1 has neither area nor volume and every other object
  has area 1 and volume 1, and in which \<^verbatim>\<open>add_oif_global_forces\<close> adds the area
  to the first force component of every local particle. All other calls leave the
  store as it is.
\<close>

definition example_env :: "(unit, unit) env" where
  "example_env =
     \<lparr>run = (\<lambda>c (l, g, w).
              case c of
                AddOifGlobalForces av k \<Rightarrow>
                  (map (\<lambda>p. set_force (vadd (force p) (fst av, 0, 0)) p) l, g, w)
              | _ \<Rightarrow> (l, g, w)),
      calc_oif_global = (\<lambda>i st. if i = 1 then (0, 0) else (1, 1)),
      calc_director = example_director,
      arith = exact_arith,
      INACTIVE_CUTOFF = - 1,
      TRANS_VS_RELATIVE = 256,
      ROT_VS_RELATIVE = 512\<rparr>"

definition example_cutoffs :: Cutoffs where
  "example_cutoffs =
     \<lparr>get_verlet_skin = 0.4, get_interaction_range = 2.5, maximal_cutoff = 2.5,
      maximal_cutoff_bonded = 1.5, coulomb_cutoff = 3.5, dipoles_cutoff = - 1,
      collision_detection_cutoff = - 1\<rparr>"

text \<open>A system with one local particle, no ghost particle and three OIF objects.\<close>

definition example_system :: "(unit, unit) System" where
  "example_system =
     \<lparr>local_particles = [example_particle 0 (3, 4, 0) (1, 0, 0) False],
      ghost_particles = [],
      world = (),
      cutoffs = example_cutoffs,
      force_cap = 1,
      time_step = 0.01,
      max_oif_objects = 3,
      icc_extension = False,
      lb_is_solver_set = False,
      used_propagations = 256,
      recalc_forces = True,
      calls = []\<rparr>"

text \<open>A table of interaction parameters with an entry for the type pair \<open>(0, 1)\<close> only.\<close>

definition example_ia_state :: "unit ia_state" where
  "example_ia_state =
     \<lparr>ia_params = [(0, 1) \<mapsto> \<lparr>gb = \<lparr>gb_eps = 0, gb_sig = 0, gb_cut = 0, gb_k1 = 0, gb_k2 = 0,
                                       gb_mu = 0, gb_nu = 0, gb_chi1 = 0, gb_chi2 = 0\<rparr>\<rparr>],
      ia_bcasts = []\<rparr>"

section \<open>Properties\<close>

subsection \<open>Rounding to binary64\<close>

lemma pow2_pos: "0 < pow2 e"
  by (simp add: pow2_def)

lemma pow2_powr: "pow2 e = 2 powr (of_int e)"
  by (simp only: pow2_def powr_int [of 2 e, simplified])

lemma floor_log2:
  assumes "pow2 k \<le> \<bar>x\<bar>" and "\<bar>x\<bar> < pow2 (k + 1)"
  shows "\<lfloor>log 2 \<bar>x\<bar>\<rfloor> = k"
proof -
  have pos: "0 < \<bar>x\<bar>"
    using assms(1) pow2_pos [of k] by linarith
  have "2 powr (of_int k) \<le> \<bar>x\<bar> \<and> \<bar>x\<bar> < 2 powr (of_int k + 1)"
    using assms by (simp add: pow2_powr)
  then show ?thesis
    using floor_log_eq_powr_iff [of "\<bar>x\<bar>" 2 k] pos by simp
qed

lemma fl_eval:
  assumes "pow2 k \<le> \<bar>x\<bar>" and "\<bar>x\<bar> < pow2 (k + 1)"
    and "round_to_even (x / pow2 (max (k - 52) (- 1074))) = m"
    and "\<bar>of_int m * pow2 (max (k - 52) (- 1074))\<bar> < 2 ^ 1024"
  shows "fl x = Finite (of_int m * pow2 (max (k - 52) (- 1074)))"
proof -
  have "x \<noteq> 0"
    using assms(1) pow2_pos [of k] by auto
  then show ?thesis
    using assms(3,4) by (simp add: fl_def floor_log2 [OF assms(1,2)] Let_def)
qed

lemma fl_overflow:
  assumes "pow2 k \<le> \<bar>x\<bar>" and "\<bar>x\<bar> < pow2 (k + 1)"
    and "round_to_even (x / pow2 (max (k - 52) (- 1074))) = m"
    and "2 ^ 1024 \<le> \<bar>of_int m * pow2 (max (k - 52) (- 1074))\<bar>" and "0 < x"
  shows "fl x = PInf"
proof -
  have "x \<noteq> 0"
    using assms(5) by simp
  then have "fl x =
      (if 2 ^ 1024 \<le> \<bar>of_int m * pow2 (max (k - 52) (- 1074))\<bar>
       then (if 0 < x then PInf else NInf)
       else Finite (of_int m * pow2 (max (k - 52) (- 1074))))"
    unfolding fl_def floor_log2 [OF assms(1,2)] Let_def assms(3) by (simp only: if_False)
  then show ?thesis
    using assms(4,5) by (simp only: if_True)
qed

lemma round_to_even_nearest:
  assumes "of_int m - 1 / 2 < y" and "y < of_int m + 1 / 2"
  shows "round_to_even y = m"
proof -
  have "\<lfloor>y\<rfloor> = m \<or> \<lfloor>y\<rfloor> = m - 1"
    using assms by linarith
  then show ?thesis
  proof
    assume "\<lfloor>y\<rfloor> = m"
    then show ?thesis
      using assms by (simp add: round_to_even_def Let_def)
  next
    assume f: "\<lfloor>y\<rfloor> = m - 1"
    then have "1 / 2 < y - of_int (m - 1)"
      using assms by simp
    then show ?thesis
      using f by (simp add: round_to_even_def Let_def)
  qed
qed

lemma fl_sqrt_eval:
  assumes "pow2 k * pow2 k \<le> a" and "a < pow2 (k + 1) * pow2 (k + 1)"
    and "0 < m"
    and "(of_int (2 * m - 1) * pow2 (max (k - 52) (- 1074)))\<^sup>2 < 4 * a"
    and "4 * a < (of_int (2 * m + 1) * pow2 (max (k - 52) (- 1074)))\<^sup>2"
    and "\<bar>of_int m * pow2 (max (k - 52) (- 1074))\<bar> < 2 ^ 1024"
  shows "fl (sqrt a) = Finite (of_int m * pow2 (max (k - 52) (- 1074)))"
proof -
  let ?q = "pow2 (max (k - 52) (- 1074))"
  have q: "0 < ?q" by (rule pow2_pos)
  have "0 < pow2 k * pow2 k"
    using pow2_pos [of k] by simp
  then have a: "0 < a"
    using assms(1) by linarith
  have "(pow2 k)\<^sup>2 \<le> a"
    using assms(1) by (simp add: power2_eq_square)
  then have "pow2 k \<le> sqrt a"
    by (rule real_le_rsqrt)
  then have lo: "pow2 k \<le> \<bar>sqrt a\<bar>"
    by simp
  have "a < (pow2 (k + 1))\<^sup>2"
    using assms(2) by (simp add: power2_eq_square)
  then have "sqrt a < pow2 (k + 1)"
    using pow2_pos [of "k + 1"] by (intro real_less_lsqrt) simp_all
  then have hi: "\<bar>sqrt a\<bar> < pow2 (k + 1)"
    using a by simp
  have s4: "sqrt (4 * a) = 2 * sqrt a"
    by (simp add: real_sqrt_mult)
  have "of_int (2 * m - 1) * ?q < sqrt (4 * a)"
    using assms(4) by (rule real_less_rsqrt)
  then have "(2 * of_int m - 1) * ?q < 2 * sqrt a"
    unfolding s4 by simp
  then have 1: "of_int m - 1 / 2 < sqrt a / ?q"
    using q by (simp add: field_simps)
  have "0 \<le> of_int (2 * m + 1) * ?q"
    using assms(3) q by simp
  then have "sqrt (4 * a) < of_int (2 * m + 1) * ?q"
    using assms(5) by (rule real_less_lsqrt)
  then have "2 * sqrt a < (2 * of_int m + 1) * ?q"
    unfolding s4 by simp
  then have 2: "sqrt a / ?q < of_int m + 1 / 2"
    using q by (simp add: field_simps)
  show ?thesis
    using lo hi round_to_even_nearest [OF 1 2] assms(6) by (rule fl_eval)
qed

subsection \<open>Operations of binary64 on the numbers of three runs\<close>

lemma ieee_example_1:
  "ieee_mul (Finite 3) (Finite 3) = Finite 9"
proof -
  have "fl (3 * 3) = Finite (of_int 5066549580791808 * pow2 (max (3 - 52) (- 1074)))"
    by (rule fl_eval) (simp_all add: pow2_def round_to_even_def Let_def)
  then show ?thesis
    by (simp add: pow2_def)
qed

lemma ieee_example_2:
  "ieee_mul (Finite 0) (Finite 0) = Finite 0"
  by (simp add: fl_def)

lemma ieee_example_3:
  "ieee_add (Finite 0) (Finite 9) = Finite 9"
proof -
  have "fl (0 + 9) = Finite (of_int 5066549580791808 * pow2 (max (3 - 52) (- 1074)))"
    by (rule fl_eval) (simp_all add: pow2_def round_to_even_def Let_def)
  then show ?thesis
    by (simp add: pow2_def)
qed

lemma ieee_example_4:
  "ieee_add (Finite 9) (Finite 9) = Finite 18"
proof -
  have "fl (9 + 9) = Finite (of_int 5066549580791808 * pow2 (max (4 - 52) (- 1074)))"
    by (rule fl_eval) (simp_all add: pow2_def round_to_even_def Let_def)
  then show ?thesis
    by (simp add: pow2_def)
qed

lemma ieee_example_5:
  "ieee_sqrt (Finite 18) = Finite (4776788754394329 / 1125899906842624)"
proof -
  have "fl (sqrt 18) = Finite (of_int 4776788754394329 * pow2 (max (2 - 52) (- 1074)))"
    by (rule fl_sqrt_eval) (simp_all add: pow2_def power2_eq_square)
  then show ?thesis
    by (simp add: pow2_def)
qed

lemma ieee_example_6:
  "ieee_div (Finite 3) (Finite (4776788754394329 / 1125899906842624)) = Finite (6369051672525773 / 9007199254740992)"
proof -
  have "fl (3 / (4776788754394329 / 1125899906842624)) = Finite (of_int 6369051672525773 * pow2 (max (- 1 - 52) (- 1074)))"
    by (rule fl_eval) (simp_all add: pow2_def round_to_even_def Let_def)
  then show ?thesis
    by (simp add: pow2_def)
qed

lemma ieee_example_7:
  "ieee_mul (Finite 0) (Finite (6369051672525773 / 9007199254740992)) = Finite 0"
  by (simp add: fl_def)

lemma ieee_example_8:
  "ieee_mul (Finite 3) (Finite (6369051672525773 / 9007199254740992)) = Finite (2388394377197165 / 1125899906842624)"
proof -
  have "fl (3 * (6369051672525773 / 9007199254740992)) = Finite (of_int 4776788754394330 * pow2 (max (1 - 52) (- 1074)))"
    by (rule fl_eval) (simp_all add: pow2_def round_to_even_def Let_def)
  then show ?thesis
    by (simp add: pow2_def)
qed

lemma ieee_example_9:
  "ieee_mul (Finite (2388394377197165 / 1125899906842624)) (Finite (2388394377197165 / 1125899906842624)) = Finite (5066549580791809 / 1125899906842624)"
proof -
  have "fl ((2388394377197165 / 1125899906842624) * (2388394377197165 / 1125899906842624)) = Finite (of_int 5066549580791809 * pow2 (max (2 - 52) (- 1074)))"
    by (rule fl_eval) (simp_all add: pow2_def round_to_even_def Let_def)
  then show ?thesis
    by (simp add: pow2_def)
qed

lemma ieee_example_10:
  "ieee_add (Finite 0) (Finite (5066549580791809 / 1125899906842624)) = Finite (5066549580791809 / 1125899906842624)"
proof -
  have "fl (0 + (5066549580791809 / 1125899906842624)) = Finite (of_int 5066549580791809 * pow2 (max (2 - 52) (- 1074)))"
    by (rule fl_eval) (simp_all add: pow2_def round_to_even_def Let_def)
  then show ?thesis
    by (simp add: pow2_def)
qed

lemma ieee_example_11:
  "ieee_add (Finite (5066549580791809 / 1125899906842624)) (Finite (5066549580791809 / 1125899906842624)) = Finite (5066549580791809 / 562949953421312)"
proof -
  have "fl ((5066549580791809 / 1125899906842624) + (5066549580791809 / 1125899906842624)) = Finite (of_int 5066549580791809 * pow2 (max (3 - 52) (- 1074)))"
    by (rule fl_eval) (simp_all add: pow2_def round_to_even_def Let_def)
  then show ?thesis
    by (simp add: pow2_def)
qed

lemma ieee_example_12:
  "ieee_sqrt (Finite (5066549580791809 / 562949953421312)) = Finite (6755399441055745 / 2251799813685248)"
proof -
  have "fl (sqrt (5066549580791809 / 562949953421312)) = Finite (of_int 6755399441055745 * pow2 (max (1 - 52) (- 1074)))"
    by (rule fl_sqrt_eval) (simp_all add: pow2_def power2_eq_square)
  then show ?thesis
    by (simp add: pow2_def)
qed

lemma ieee_example_13:
  "ieee_div (Finite 3) (Finite (6755399441055745 / 2251799813685248)) = Finite (9007199254740991 / 9007199254740992)"
proof -
  have "fl (3 / (6755399441055745 / 2251799813685248)) = Finite (of_int 9007199254740991 * pow2 (max (- 1 - 52) (- 1074)))"
    by (rule fl_eval) (simp_all add: pow2_def round_to_even_def Let_def)
  then show ?thesis
    by (simp add: pow2_def)
qed

lemma ieee_example_14:
  "ieee_mul (Finite 0) (Finite (9007199254740991 / 9007199254740992)) = Finite 0"
  by (simp add: fl_def)

lemma ieee_example_15:
  "ieee_mul (Finite (2388394377197165 / 1125899906842624)) (Finite (9007199254740991 / 9007199254740992)) = Finite (4776788754394329 / 2251799813685248)"
proof -
  have "fl ((2388394377197165 / 1125899906842624) * (9007199254740991 / 9007199254740992)) = Finite (of_int 4776788754394329 * pow2 (max (1 - 52) (- 1074)))"
    by (rule fl_eval) (simp_all add: pow2_def round_to_even_def Let_def)
  then show ?thesis
    by (simp add: pow2_def)
qed

lemma ieee_example_16:
  "ieee_mul (Finite 1) (Finite 1) = Finite 1"
proof -
  have "fl (1 * 1) = Finite (of_int 4503599627370496 * pow2 (max (0 - 52) (- 1074)))"
    by (rule fl_eval) (simp_all add: pow2_def round_to_even_def Let_def)
  then show ?thesis
    by (simp add: pow2_def)
qed

lemma ieee_example_17:
  "ieee_mul (Finite 4) (Finite 4) = Finite 16"
proof -
  have "fl (4 * 4) = Finite (of_int 4503599627370496 * pow2 (max (4 - 52) (- 1074)))"
    by (rule fl_eval) (simp_all add: pow2_def round_to_even_def Let_def)
  then show ?thesis
    by (simp add: pow2_def)
qed

lemma ieee_example_18:
  "ieee_add (Finite 9) (Finite 16) = Finite 25"
proof -
  have "fl (9 + 16) = Finite (of_int 7036874417766400 * pow2 (max (4 - 52) (- 1074)))"
    by (rule fl_eval) (simp_all add: pow2_def round_to_even_def Let_def)
  then show ?thesis
    by (simp add: pow2_def)
qed

lemma ieee_example_19:
  "ieee_add (Finite 25) (Finite 0) = Finite 25"
proof -
  have "fl (25 + 0) = Finite (of_int 7036874417766400 * pow2 (max (4 - 52) (- 1074)))"
    by (rule fl_eval) (simp_all add: pow2_def round_to_even_def Let_def)
  then show ?thesis
    by (simp add: pow2_def)
qed

lemma ieee_example_20:
  "ieee_sqrt (Finite 25) = Finite 5"
proof -
  have "fl (sqrt 25) = Finite (of_int 5629499534213120 * pow2 (max (2 - 52) (- 1074)))"
    by (rule fl_sqrt_eval) (simp_all add: pow2_def power2_eq_square)
  then show ?thesis
    by (simp add: pow2_def)
qed

lemma ieee_example_21:
  "ieee_div (Finite 1) (Finite 5) = Finite (3602879701896397 / 18014398509481984)"
proof -
  have "fl (1 / 5) = Finite (of_int 7205759403792794 * pow2 (max (- 3 - 52) (- 1074)))"
    by (rule fl_eval) (simp_all add: pow2_def round_to_even_def Let_def)
  then show ?thesis
    by (simp add: pow2_def)
qed

lemma ieee_example_22:
  "ieee_mul (Finite 3) (Finite (3602879701896397 / 18014398509481984)) = Finite (1351079888211149 / 2251799813685248)"
proof -
  have "fl (3 * (3602879701896397 / 18014398509481984)) = Finite (of_int 5404319552844596 * pow2 (max (- 1 - 52) (- 1074)))"
    by (rule fl_eval) (simp_all add: pow2_def round_to_even_def Let_def)
  then show ?thesis
    by (simp add: pow2_def)
qed

lemma ieee_example_23:
  "ieee_mul (Finite 4) (Finite (3602879701896397 / 18014398509481984)) = Finite (3602879701896397 / 4503599627370496)"
proof -
  have "fl (4 * (3602879701896397 / 18014398509481984)) = Finite (of_int 7205759403792794 * pow2 (max (- 1 - 52) (- 1074)))"
    by (rule fl_eval) (simp_all add: pow2_def round_to_even_def Let_def)
  then show ?thesis
    by (simp add: pow2_def)
qed

lemma ieee_example_24:
  "ieee_mul (Finite 0) (Finite (3602879701896397 / 18014398509481984)) = Finite 0"
  by (simp add: fl_def)

lemma ieee_example_25:
  "ieee_mul (Finite 4149515568880992958512407863691161151012446232242436899995657329690652811412908146399707048947103794288197886611300789182395151075411775307886874834113963687061181803401509523685376) (Finite 4149515568880992958512407863691161151012446232242436899995657329690652811412908146399707048947103794288197886611300789182395151075411775307886874834113963687061181803401509523685376) = PInf"
proof -
  have "fl (4149515568880992958512407863691161151012446232242436899995657329690652811412908146399707048947103794288197886611300789182395151075411775307886874834113963687061181803401509523685376 * 4149515568880992958512407863691161151012446232242436899995657329690652811412908146399707048947103794288197886611300789182395151075411775307886874834113963687061181803401509523685376) = PInf"
    by (rule fl_overflow [where k = "1200" and m = "4503599627370496"])
       (simp_all add: pow2_def round_to_even_def Let_def)
  then show ?thesis
    by simp
qed

lemma ieee_example_26:
  "ieee_mul (Finite 4149515568880992958512407863691161151012446232242436899995657329690652811412908146399707048947103794288197886611300789182395151075411775307886874834113963687061181803401509523685376) (Finite 0) = Finite 0"
  by (simp add: fl_def)

lemma ieee_example_27:
  "ieee_mul (Finite 5) (Finite 5) = Finite 25"
proof -
  have "fl (5 * 5) = Finite (of_int 7036874417766400 * pow2 (max (4 - 52) (- 1074)))"
    by (rule fl_eval) (simp_all add: pow2_def round_to_even_def Let_def)
  then show ?thesis
    by (simp add: pow2_def)
qed

lemmas ieee_examples = ieee_example_1 ieee_example_2 ieee_example_3 ieee_example_4 ieee_example_5 ieee_example_6 ieee_example_7 ieee_example_8 ieee_example_9 ieee_example_10 ieee_example_11 ieee_example_12 ieee_example_13 ieee_example_14 ieee_example_15 ieee_example_16 ieee_example_17 ieee_example_18 ieee_example_19 ieee_example_20 ieee_example_21 ieee_example_22 ieee_example_23 ieee_example_24 ieee_example_25 ieee_example_26 ieee_example_27

lemmas ieee_eval =
  force_capping_def force_capping_particle_def Let_def sqr_in_def force_def set_force_def
  ieee_arith_def example_double_particle_def ieee_examples

subsection \<open>Force capping in any arithmetic\<close>

lemma force_set_force: "force (set_force fv p) = fv"
  by (simp add: force_def set_force_def)


lemma force_capping_nth:
  "d_gt A cap (d_zero A) \<Longrightarrow> i < length ps \<Longrightarrow>
   force_capping A ps cap ! i = force_capping_particle A cap (ps ! i)"
  by (simp add: force_capping_def)

lemma force_capping_particle_unchanged:
  "\<not> d_gt A (norm2_in A (force p)) (sqr_in A cap) \<Longrightarrow> force_capping_particle A cap p = p"
  by (simp add: force_capping_particle_def Let_def)

lemma force_capping_particle_scaled:
  "d_gt A (norm2_in A (force p)) (sqr_in A cap) \<Longrightarrow>
   force (force_capping_particle A cap p) =
     vscale_in A (d_div A cap (d_sqrt A (norm2_in A (force p)))) (force p)"
  by (simp add: force_capping_particle_def Let_def force_set_force)



subsection \<open>Force capping in exact arithmetic\<close>

lemma norm2_nonneg: "0 \<le> norm2 a"
  by (cases a) simp

lemma norm2_vscale: "norm2 (vscale s a) = s * s * norm2 a"
  by (cases a) (simp add: algebra_simps)

lemma vscale_vscale: "vscale s (vscale t a) = vscale (s * t) a"
  by (cases a) (simp add: algebra_simps)

lemma sqr_in_exact: "sqr_in exact_arith x = sqr x"
  by (simp add: sqr_in_def sqr_def exact_arith_def)

lemma norm2_in_exact: "norm2_in exact_arith a = norm2 a"
  by (cases a) (simp add: exact_arith_def)

lemma vscale_in_exact: "vscale_in exact_arith s a = vscale s a"
  by (cases a) (simp add: exact_arith_def mult.commute)

lemma d_gt_exact: "d_gt exact_arith a b = (b < a)"
  by (simp add: exact_arith_def)

lemma d_div_exact: "d_div exact_arith a b = a / b"
  by (simp add: exact_arith_def)

lemma d_sqrt_exact: "d_sqrt exact_arith a = sqrt a"
  by (simp add: exact_arith_def)

lemma d_zero_exact: "d_zero exact_arith = 0"
  by (simp add: exact_arith_def)

lemma force_capping_particle_exact:
  "force_capping_particle exact_arith c p =
     (if sqr c < norm2 (force p)
      then set_force (vscale (c / sqrt (norm2 (force p))) (force p)) p
      else p)"
  by (simp add: force_capping_particle_def Let_def sqr_in_exact norm2_in_exact vscale_in_exact
      d_gt_exact d_div_exact d_sqrt_exact)

lemma force_capping_exact:
  "force_capping exact_arith ps c =
     (if 0 < c then map (force_capping_particle exact_arith c) ps else ps)"
  by (simp add: force_capping_def d_gt_exact d_zero_exact)

lemma sqr_less_iff: "0 < c \<Longrightarrow> 0 \<le> n \<Longrightarrow> sqr c < n \<longleftrightarrow> c < sqrt n"
  unfolding sqr_def
  by (metis abs_of_pos real_sqrt_abs2 real_sqrt_less_iff)

lemma norm2_capped:
  assumes "0 < c" and "sqr c < norm2 a"
  shows "norm2 (vscale (c / sqrt (norm2 a)) a) = sqr c"
proof -
  have pos: "0 < norm2 a"
  proof -
    have "0 < sqr c" using assms(1) by (simp add: sqr_def)
    then show ?thesis using assms(2) by linarith
  qed
  then have "sqrt (norm2 a) * sqrt (norm2 a) = norm2 a"
    by simp
  then have "(c / sqrt (norm2 a)) * (c / sqrt (norm2 a)) * norm2 a = c * c"
    using pos by (simp add: field_simps)
  then show ?thesis
    by (simp add: norm2_vscale sqr_def)
qed

lemma vnorm_capped:
  assumes "0 < c" and "sqr c < norm2 a"
  shows "vnorm (vscale (c / sqrt (norm2 a)) a) = c"
  using assms by (simp add: vnorm_def norm2_capped sqr_def)

lemma vdirection_capped:
  assumes "0 < c" and "sqr c < norm2 a"
  shows "vdirection (vscale (c / sqrt (norm2 a)) a) = vdirection a"
proof -
  have "vdirection (vscale (c / sqrt (norm2 a)) a) = vscale (1 / c * (c / sqrt (norm2 a))) a"
    using assms by (simp add: vdirection_def vnorm_capped vscale_vscale)
  also have "1 / c * (c / sqrt (norm2 a)) = 1 / sqrt (norm2 a)"
    using assms by simp
  finally show ?thesis
    by (simp add: vdirection_def vnorm_def)
qed

lemma force_capping_particle_idem:
  "0 < c \<Longrightarrow>
   force_capping_particle exact_arith c (force_capping_particle exact_arith c p) =
     force_capping_particle exact_arith c p"
  by (simp add: force_capping_particle_exact force_set_force norm2_capped)

lemma force_capping_particle_below:
  assumes "0 < c" and "vnorm (force p) \<le> c"
  shows "force_capping_particle exact_arith c p = p"
proof -
  have "\<not> sqr c < norm2 (force p)"
    using assms sqr_less_iff [OF assms(1) norm2_nonneg, of "force p"] by (simp add: vnorm_def)
  then show ?thesis
    by (simp add: force_capping_particle_exact)
qed

lemma force_capping_particle_above:
  assumes "0 < c" and "c < vnorm (force p)"
  shows "force (force_capping_particle exact_arith c p) =
           vscale (c / sqrt (norm2 (force p))) (force p)"
    and "sqr c < norm2 (force p)"
proof -
  show lt: "sqr c < norm2 (force p)"
    using assms sqr_less_iff [OF assms(1) norm2_nonneg, of "force p"] by (simp add: vnorm_def)
  then show "force (force_capping_particle exact_arith c p) =
               vscale (c / sqrt (norm2 (force p))) (force p)"
    by (simp add: force_capping_particle_exact force_set_force)
qed

lemma force_capping_exact_nth:
  "0 < c \<Longrightarrow> i < length ps \<Longrightarrow>
   force_capping exact_arith ps c ! i = force_capping_particle exact_arith c (ps ! i)"
  by (simp add: force_capping_exact)

lemma force_capping_exact_caps:
  assumes "0 < c" and "j < length rs"
  shows "(vnorm (force (rs ! j)) \<le> c \<longrightarrow> force_capping exact_arith rs c ! j = rs ! j) \<and>
         (c < vnorm (force (rs ! j)) \<longrightarrow>
            vnorm (force (force_capping exact_arith rs c ! j)) = c \<and>
            vdirection (force (force_capping exact_arith rs c ! j)) = vdirection (force (rs ! j)))"
proof (intro conjI impI)
  assume "vnorm (force (rs ! j)) \<le> c"
  then show "force_capping exact_arith rs c ! j = rs ! j"
    using assms by (simp add: force_capping_exact_nth force_capping_particle_below)
next
  assume above: "c < vnorm (force (rs ! j))"
  note f = force_capping_particle_above [OF assms(1) above]
  show "vnorm (force (force_capping exact_arith rs c ! j)) = c"
    using assms f by (simp add: force_capping_exact_nth vnorm_capped)
  show "vdirection (force (force_capping exact_arith rs c ! j)) = vdirection (force (rs ! j))"
    using assms f by (simp add: force_capping_exact_nth vdirection_capped)
qed

lemma sqrt_25: "sqrt 25 = 5"
  using real_sqrt_abs [of 5] by simp

subsection \<open>Force capping in binary64 arithmetic: three runs\<close>

text \<open>
  The force \<open>(0, 3, 3)\<close> with the cap 3: the first application gives the components
  \<^verbatim>\<open>0x1.0f876ccdf6cdap+1\<close>, the second one \<^verbatim>\<open>0x1.0f876ccdf6cd9p+1\<close>.
\<close>

lemma force_capping_ieee_033:
  "force_capping ieee_arith [example_double_particle (Finite 0, Finite 3, Finite 3)] (Finite 3) =
     [set_force (Finite 0, Finite (2388394377197165 / 1125899906842624), Finite (2388394377197165 / 1125899906842624)) (example_double_particle (Finite 0, Finite 3, Finite 3))]"
  by (simp add: ieee_eval
      del: ieee_add.simps(1) ieee_mul.simps(1) ieee_div.simps(1) ieee_sqrt.simps(1))

lemma force_capping_ieee_033_again:
  "force_capping ieee_arith [set_force (Finite 0, Finite (2388394377197165 / 1125899906842624), Finite (2388394377197165 / 1125899906842624)) (example_double_particle (Finite 0, Finite 3, Finite 3))] (Finite 3) =
     [set_force (Finite 0, Finite (4776788754394329 / 2251799813685248), Finite (4776788754394329 / 2251799813685248)) (example_double_particle (Finite 0, Finite 3, Finite 3))]"
  by (simp add: ieee_eval
      del: ieee_add.simps(1) ieee_mul.simps(1) ieee_div.simps(1) ieee_sqrt.simps(1))

text \<open>
  The force \<open>(3, 4, 0)\<close> with the cap 1: the result is
  \<^verbatim>\<open>(0x1.3333333333334p-1, 0x1.999999999999ap-1, 0)\<close>.
\<close>

lemma force_capping_ieee_340:
  "force_capping ieee_arith [example_double_particle (Finite 3, Finite 4, Finite 0)] (Finite 1) =
     [set_force (Finite (1351079888211149 / 2251799813685248), Finite (3602879701896397 / 4503599627370496), Finite 0) (example_double_particle (Finite 3, Finite 4, Finite 0))]"
  by (simp add: ieee_eval
      del: ieee_add.simps(1) ieee_mul.simps(1) ieee_div.simps(1) ieee_sqrt.simps(1))

text \<open>
  The force \<open>(2\<^sup>6\<^sup>0\<^sup>0, 0, 0)\<close> with the cap 1: the squared norm overflows to
  infinity, the factor is 0, and the force becomes zero.
\<close>

lemma force_capping_ieee_overflow:
  "force_capping ieee_arith [example_double_particle (Finite (2 ^ 600), Finite 0, Finite 0)] (Finite 1) =
     [set_force (Finite 0, Finite 0, Finite 0)
        (example_double_particle (Finite (2 ^ 600), Finite 0, Finite 0))]"
  by (simp add: ieee_eval
      del: ieee_add.simps(1) ieee_mul.simps(1) ieee_div.simps(1) ieee_sqrt.simps(1))

text \<open>
  Claim C2 says that a force above the cap has, after \<^verbatim>\<open>force_capping\<close>, a magnitude
  of exactly the cap and its direction. It fails in binary64 arithmetic: the force
  \<open>(3, 4, 0)\<close> of magnitude 5, capped at 1, becomes a force whose magnitude is not 1
  and whose direction is not that of \<open>(3, 4, 0)\<close>.
\<close>

theorem force_capping_caps_counterexample:
  "ieee_gt (Finite 1) (Finite 0) \<and>
   1 < vnorm (3, 4, 0) \<and>
   force (force_capping ieee_arith [example_double_particle (Finite 3, Finite 4, Finite 0)] (Finite 1) ! 0) =
     (Finite (1351079888211149 / 2251799813685248), Finite (3602879701896397 / 4503599627370496), Finite 0) \<and>
   vnorm (1351079888211149 / 2251799813685248, 3602879701896397 / 4503599627370496, 0) \<noteq> 1 \<and>
   vdirection (1351079888211149 / 2251799813685248, 3602879701896397 / 4503599627370496, 0) \<noteq> vdirection (3, 4, 0)"
proof -
  have n: "vnorm (3, 4, 0) = 5"
    by (simp add: vnorm_def sqrt_25)
  have m: "vnorm (1351079888211149 / 2251799813685248, 3602879701896397 / 4503599627370496, 0) \<noteq> 1"
    by (simp add: vnorm_def)
  have d: "vdirection (1351079888211149 / 2251799813685248, 3602879701896397 / 4503599627370496, 0) \<noteq> vdirection (3, 4, 0)"
  proof
    assume eq: "vdirection (1351079888211149 / 2251799813685248, 3602879701896397 / 4503599627370496, 0) = vdirection (3, 4, 0)"
    define r where "r = vnorm (1351079888211149 / 2251799813685248, 3602879701896397 / 4503599627370496, 0)"
    have "(1351079888211149 / 2251799813685248) / r = 3 / 5" and "(3602879701896397 / 4503599627370496) / r = 4 / 5"
      using eq by (simp_all add: vdirection_def n r_def)
    then have "4 * ((1351079888211149 / 2251799813685248) / r) = 3 * ((3602879701896397 / 4503599627370496) / r)"
      by simp
    moreover have "r \<noteq> 0"
      by (simp add: r_def vnorm_def)
    ultimately show False
      by (simp add: field_simps)
  qed
  show ?thesis
    using n m d by (simp add: force_capping_ieee_340 force_set_force)
qed

text \<open>
  Claim C2, amended. For a force cap greater than 0 and every particle of the range,
  in every arithmetic (in particular in binary64): \<^verbatim>\<open>force_capping\<close> leaves the
  particle unchanged when the squared norm of its force, as computed, is not greater
  than the squared cap, as computed, and otherwise multiplies every component of its
  force by the factor \<open>force_cap / sqrt force_sq\<close>, as computed. In exact arithmetic:
  a particle whose force magnitude is at most the cap is left unchanged, and a
  particle whose force magnitude exceeds the cap has, afterwards, a force of
  magnitude exactly the cap and of the same direction.
\<close>

theorem force_capping_caps:
  "(d_gt A cap (d_zero A) \<and> i < length particles \<longrightarrow>
      (\<not> d_gt A (norm2_in A (force (particles ! i))) (sqr_in A cap) \<longrightarrow>
         force_capping A particles cap ! i = particles ! i) \<and>
      (d_gt A (norm2_in A (force (particles ! i))) (sqr_in A cap) \<longrightarrow>
         force (force_capping A particles cap ! i) =
           vscale_in A (d_div A cap (d_sqrt A (norm2_in A (force (particles ! i)))))
             (force (particles ! i)))) \<and>
   (0 < c \<and> j < length rs \<longrightarrow>
      (vnorm (force (rs ! j)) \<le> c \<longrightarrow> force_capping exact_arith rs c ! j = rs ! j) \<and>
      (c < vnorm (force (rs ! j)) \<longrightarrow>
         vnorm (force (force_capping exact_arith rs c ! j)) = c \<and>
         vdirection (force (force_capping exact_arith rs c ! j)) = vdirection (force (rs ! j))))"
  using force_capping_exact_caps [of c j rs]
  by (simp add: force_capping_nth force_capping_particle_unchanged force_capping_particle_scaled)

theorem force_capping_caps_witness:
  "ieee_gt (Finite 1) (Finite 0) \<and>
   ieee_gt (Finite 25) (Finite 1) \<and>
   force (force_capping ieee_arith [example_double_particle (Finite 3, Finite 4, Finite 0)] (Finite 1) ! 0) =
     (Finite (1351079888211149 / 2251799813685248), Finite (3602879701896397 / 4503599627370496), Finite 0) \<and>
   \<not> ieee_gt (Finite 25) (Finite 25) \<and>
   force_capping ieee_arith [example_double_particle (Finite 3, Finite 4, Finite 0)] (Finite 5) ! 0 =
     example_double_particle (Finite 3, Finite 4, Finite 0) \<and>
   (0::real) < 1 \<and>
   vnorm (force (example_particle 0 (3, 4, 0) vzero False)) = 5 \<and>
   vnorm (force (force_capping exact_arith [example_particle 0 (3, 4, 0) vzero False,
                                            example_particle 1 (0, 1, 0) vzero False] 1 ! 0)) = 1 \<and>
   vnorm (force (example_particle 1 (0, 1, 0) vzero False)) = 1 \<and>
   force_capping exact_arith [example_particle 0 (3, 4, 0) vzero False,
                              example_particle 1 (0, 1, 0) vzero False] 1 ! 1 =
     example_particle 1 (0, 1, 0) vzero False"
proof -
  let ?ps = "[example_particle 0 (3, 4, 0) vzero False, example_particle 1 (0, 1, 0) vzero False]"
  let ?ds = "[example_double_particle (Finite 3, Finite 4, Finite 0)]"
  note ev = ieee_eval
  have a: "vnorm (force (example_particle 0 (3, 4, 0) vzero False)) = 5"
    by (simp add: vnorm_def force_def example_particle_def sqrt_25)
  have b: "vnorm (force (example_particle 1 (0, 1, 0) vzero False)) = 1"
    by (simp add: vnorm_def force_def example_particle_def)
  have n: "norm2_in ieee_arith (force (?ds ! 0)) = Finite 25"
    by (simp add: ev del: ieee_add.simps(1) ieee_mul.simps(1) ieee_div.simps(1) ieee_sqrt.simps(1))
  have s1: "sqr_in ieee_arith (Finite 1) = Finite 1" and s5: "sqr_in ieee_arith (Finite 5) = Finite 25"
    by (simp_all add: ev
        del: ieee_add.simps(1) ieee_mul.simps(1) ieee_div.simps(1) ieee_sqrt.simps(1))
  have z: "d_gt ieee_arith (Finite 1) (d_zero ieee_arith)" "d_gt ieee_arith (Finite 5) (d_zero ieee_arith)"
    "d_gt ieee_arith (Finite 25) (Finite 1)" "\<not> d_gt ieee_arith (Finite 25) (Finite 25)"
    by (simp_all add: ieee_arith_def)
  have "force (force_capping ieee_arith ?ds (Finite 1) ! 0) =
          vscale_in ieee_arith
            (d_div ieee_arith (Finite 1) (d_sqrt ieee_arith (norm2_in ieee_arith (force (?ds ! 0)))))
            (force (?ds ! 0))"
    using force_capping_caps [of ieee_arith "Finite 1" 0 ?ds, THEN conjunct1] z n s1 by simp
  then have 1: "force (force_capping ieee_arith ?ds (Finite 1) ! 0) = (Finite (1351079888211149 / 2251799813685248), Finite (3602879701896397 / 4503599627370496), Finite 0)"
    unfolding n
    by (simp add: ev del: ieee_add.simps(1) ieee_mul.simps(1) ieee_div.simps(1) ieee_sqrt.simps(1))
  have 2: "force_capping ieee_arith ?ds (Finite 5) ! 0 = ?ds ! 0"
    using force_capping_caps [of ieee_arith "Finite 5" 0 ?ds, THEN conjunct1] z n s5 by simp
  have 3: "vnorm (force (force_capping exact_arith ?ps 1 ! 0)) = 1"
    using force_capping_caps [of A cap i particles 1 0 ?ps, THEN conjunct2] a by simp
  have 4: "force_capping exact_arith ?ps 1 ! 1 = ?ps ! 1"
    using force_capping_caps [of A cap i particles 1 1 ?ps, THEN conjunct2] b by simp
  show ?thesis
    using 1 2 3 4 a b by simp
qed

text \<open>
  Claim C8 says that a second application of \<^verbatim>\<open>force_capping\<close> changes no force.
  It fails in binary64 arithmetic: the force \<open>(0, 3, 3)\<close>, capped at 3, becomes a
  force whose squared norm, as computed, is again greater than 9, and the second
  application changes its last bit.
\<close>

theorem force_capping_idempotent_counterexample:
  "force (force_capping ieee_arith [example_double_particle (Finite 0, Finite 3, Finite 3)] (Finite 3) ! 0) =
     (Finite 0, Finite (2388394377197165 / 1125899906842624), Finite (2388394377197165 / 1125899906842624)) \<and>
   force (force_capping ieee_arith
            (force_capping ieee_arith [example_double_particle (Finite 0, Finite 3, Finite 3)] (Finite 3)) (Finite 3) ! 0) =
     (Finite 0, Finite (4776788754394329 / 2251799813685248), Finite (4776788754394329 / 2251799813685248)) \<and>
   force_capping ieee_arith
     (force_capping ieee_arith [example_double_particle (Finite 0, Finite 3, Finite 3)] (Finite 3)) (Finite 3) \<noteq>
   force_capping ieee_arith [example_double_particle (Finite 0, Finite 3, Finite 3)] (Finite 3)"
  by (simp add: force_capping_ieee_033 force_capping_ieee_033_again force_set_force)
     (simp add: set_force_def example_double_particle_def)

text \<open>
  Claim C8, amended. \<^verbatim>\<open>force_capping\<close> is idempotent in exact arithmetic: for every
  force cap and every range of particles, a second application to the result of the
  first changes nothing. In every arithmetic (in particular in binary64), a second
  application with the same cap leaves unchanged every particle whose force after the
  first application has a squared norm, as computed, that is not greater than the
  squared cap, as computed, among them every particle whose force had such a squared
  norm before the first application; and it changes nothing when the cap is not
  greater than 0.
\<close>

theorem force_capping_idempotent:
  "(\<forall>i < length particles.
      (\<not> d_gt A (norm2_in A (force (force_capping A particles cap ! i))) (sqr_in A cap) \<longrightarrow>
         force_capping A (force_capping A particles cap) cap ! i =
           force_capping A particles cap ! i) \<and>
      (\<not> d_gt A (norm2_in A (force (particles ! i))) (sqr_in A cap) \<longrightarrow>
         force_capping A (force_capping A particles cap) cap ! i =
           force_capping A particles cap ! i)) \<and>
   (\<not> d_gt A cap (d_zero A) \<longrightarrow>
      force_capping A (force_capping A particles cap) cap = force_capping A particles cap) \<and>
   force_capping exact_arith (force_capping exact_arith rs c) c = force_capping exact_arith rs c"
proof (intro conjI allI impI)
  fix i
  assume i: "i < length particles"
    and t: "\<not> d_gt A (norm2_in A (force (force_capping A particles cap ! i))) (sqr_in A cap)"
  show "force_capping A (force_capping A particles cap) cap ! i = force_capping A particles cap ! i"
  proof (cases "d_gt A cap (d_zero A)")
    case True
    have "i < length (force_capping A particles cap)"
      using i by (simp add: force_capping_def)
    then show ?thesis
      using True t by (simp add: force_capping_nth force_capping_particle_unchanged)
  next
    case False
    then show ?thesis by (simp add: force_capping_def)
  qed
next
  fix i
  assume i: "i < length particles"
    and t: "\<not> d_gt A (norm2_in A (force (particles ! i))) (sqr_in A cap)"
  show "force_capping A (force_capping A particles cap) cap ! i = force_capping A particles cap ! i"
  proof (cases "d_gt A cap (d_zero A)")
    case True
    have "i < length (force_capping A particles cap)"
      using i by (simp add: force_capping_def)
    then show ?thesis
      using True t i by (simp add: force_capping_nth force_capping_particle_unchanged)
  next
    case False
    then show ?thesis by (simp add: force_capping_def)
  qed
next
  assume "\<not> d_gt A cap (d_zero A)"
  then show "force_capping A (force_capping A particles cap) cap = force_capping A particles cap"
    by (simp add: force_capping_def)
next
  show "force_capping exact_arith (force_capping exact_arith rs c) c = force_capping exact_arith rs c"
    by (simp add: force_capping_exact force_capping_particle_idem)
qed

theorem force_capping_idempotent_witness:
  "\<not> ieee_gt (Finite 25) (Finite 25) \<and>
   force_capping ieee_arith (force_capping ieee_arith [example_double_particle (Finite 3, Finite 4, Finite 0)] (Finite 5)) (Finite 5) ! 0 =
     force_capping ieee_arith [example_double_particle (Finite 3, Finite 4, Finite 0)] (Finite 5) ! 0 \<and>
   \<not> ieee_gt (Finite (- 1)) (Finite 0) \<and>
   force_capping ieee_arith (force_capping ieee_arith [example_double_particle (Finite 3, Finite 4, Finite 0)] (Finite (- 1))) (Finite (- 1)) =
     force_capping ieee_arith [example_double_particle (Finite 3, Finite 4, Finite 0)] (Finite (- 1)) \<and>
   force_capping exact_arith (force_capping exact_arith [example_particle 0 (3, 4, 0) vzero False] 1) 1 =
     force_capping exact_arith [example_particle 0 (3, 4, 0) vzero False] 1"
proof -
  let ?ds = "[example_double_particle (Finite 3, Finite 4, Finite 0)]"
  note ev = ieee_eval
  have n: "norm2_in ieee_arith (force (?ds ! 0)) = Finite 25"
    by (simp add: ev del: ieee_add.simps(1) ieee_mul.simps(1) ieee_div.simps(1) ieee_sqrt.simps(1))
  have s5: "sqr_in ieee_arith (Finite 5) = Finite 25"
    by (simp add: ev del: ieee_add.simps(1) ieee_mul.simps(1) ieee_div.simps(1) ieee_sqrt.simps(1))
  have z: "\<not> d_gt ieee_arith (Finite 25) (Finite 25)" "\<not> d_gt ieee_arith (Finite (- 1)) (d_zero ieee_arith)"
    by (simp_all add: ieee_arith_def)
  note th = force_capping_idempotent [of ?ds ieee_arith "Finite 5" "[example_particle 0 (3, 4, 0) vzero False]" 1]
  have 1: "force_capping ieee_arith (force_capping ieee_arith ?ds (Finite 5)) (Finite 5) ! 0 =
           force_capping ieee_arith ?ds (Finite 5) ! 0"
    using th [THEN conjunct1, rule_format, of 0, THEN conjunct2] z n s5 by simp
  have 2: "force_capping ieee_arith (force_capping ieee_arith ?ds (Finite (- 1))) (Finite (- 1)) =
           force_capping ieee_arith ?ds (Finite (- 1))"
    using force_capping_idempotent [of ?ds ieee_arith "Finite (- 1)" rs c,
        THEN conjunct2, THEN conjunct1] z by simp
  have 3: "force_capping exact_arith (force_capping exact_arith [example_particle 0 (3, 4, 0) vzero False] 1) 1 =
           force_capping exact_arith [example_particle 0 (3, 4, 0) vzero False] 1"
    using th [THEN conjunct2, THEN conjunct2] .
  show ?thesis
    using 1 2 3 by simp
qed



subsection \<open>Initialisation of the accumulators\<close>

lemma vadd_vzero_left: "vadd vzero a = a"
  by (cases a) (simp add: vzero_def)

lemma vadd_vzero_right: "vadd a vzero = a"
  by (cases a) (simp add: vzero_def)

lemma external_force_f:
  "pf_f (external_force feat cd p) =
     vadd (if EXTERNAL_FORCES feat then ext_force p else vzero)
          (if ENGINE feat \<and> swimming (p_swimming p) \<and> \<not> is_engine_force_on_fluid (p_swimming p)
           then vscale (f_swim (p_swimming p)) (cd p) else vzero)"
  by (simp add: external_force_def Let_def ParticleForce_zero_def vadd_vzero_left vadd_vzero_right)

lemma external_force_torque:
  "pf_torque (external_force feat cd p) =
     (if EXTERNAL_FORCES feat \<and> ROTATION feat then ext_torque p else vzero)"
  by (simp add: external_force_def Let_def ParticleForce_zero_def vadd_vzero_left)

text \<open>
  Claim C6. \<^verbatim>\<open>init_forces\<close> sets the accumulator of every local particle to its
  external force and external torque, plus the swimming force \<open>f_swim\<close> along the
  director when the particle is a swimmer whose engine force is not on the fluid
  (a term whose feature is not compiled in is absent: it is the zero vector);
  \<^verbatim>\<open>init_forces_ghosts\<close>, which \<^verbatim>\<open>init_forces\<close> applies to the ghost
  particles, sets the accumulator of every ghost particle to zero.
\<close>

theorem init_forces_seeds:
  "length (fst (init_forces feat cd particles ghosts)) = length particles \<and>
   (\<forall>i < length particles.
      force (fst (init_forces feat cd particles ghosts) ! i) =
        vadd (if EXTERNAL_FORCES feat then ext_force (particles ! i) else vzero)
             (if ENGINE feat \<and> swimming (p_swimming (particles ! i)) \<and>
                 \<not> is_engine_force_on_fluid (p_swimming (particles ! i))
              then vscale (f_swim (p_swimming (particles ! i))) (cd (particles ! i))
              else vzero) \<and>
      torque (fst (init_forces feat cd particles ghosts) ! i) =
        (if EXTERNAL_FORCES feat \<and> ROTATION feat then ext_torque (particles ! i) else vzero)) \<and>
   snd (init_forces feat cd particles ghosts) = init_forces_ghosts ghosts \<and>
   length (init_forces_ghosts ghosts) = length ghosts \<and>
   (\<forall>i < length ghosts.
      force_and_torque (init_forces_ghosts ghosts ! i) = \<lparr>pf_f = vzero, pf_torque = vzero\<rparr>)"
  by (simp add: init_forces_def init_forces_ghosts_def force_def torque_def
      external_force_f external_force_torque ParticleForce_zero_def)

theorem init_forces_seeds_witness:
  "force (fst (init_forces example_features example_director
                 [example_particle 0 (3, 4, 0) (1, 0, 0) True]
                 [example_particle 1 (3, 4, 0) (1, 0, 0) True]) ! 0) = (1, 0, 2) \<and>
   torque (fst (init_forces example_features example_director
                 [example_particle 0 (3, 4, 0) (1, 0, 0) True]
                 [example_particle 1 (3, 4, 0) (1, 0, 0) True]) ! 0) = (0, 1, 0) \<and>
   force_and_torque (init_forces_ghosts [example_particle 1 (3, 4, 0) (1, 0, 0) True] ! 0) =
     \<lparr>pf_f = (0, 0, 0), pf_torque = (0, 0, 0)\<rparr>"
proof -
  let ?ps = "[example_particle 0 (3, 4, 0) (1, 0, 0) True]"
  let ?gs = "[example_particle 1 (3, 4, 0) (1, 0, 0) True]"
  note th = init_forces_seeds [of example_features example_director ?ps ?gs]
  note loc = th [THEN conjunct2, THEN conjunct1, rule_format, of 0]
  note gh = th [THEN conjunct2, THEN conjunct2, THEN conjunct2, THEN conjunct2, rule_format, of 0]
  show ?thesis
    using loc gh
    by (simp add: example_features_def example_particle_def example_director_def vzero_def)
qed

text \<open>
  Claim C5 says that after the initialisation every accumulator of every local and
  every ghost particle is zero. It fails for a local particle with an external force:
  in a build with \<^verbatim>\<open>EXTERNAL_FORCES\<close>, a local particle with external force
  \<open>(1, 0, 0)\<close> has the force \<open>(1, 0, 0)\<close> after \<^verbatim>\<open>init_forces\<close>.
\<close>

theorem init_forces_zero_counterexample:
  "force (fst (init_forces example_features example_director
                 [example_particle 0 (0, 0, 0) (1, 0, 0) False] []) ! 0) \<noteq> vzero"
  by (simp add: init_forces_def external_force_def Let_def force_def example_features_def
      example_particle_def ParticleForce_zero_def vzero_def)

text \<open>
  Claim C5, amended. After \<^verbatim>\<open>init_forces\<close>, the force and the torque of every
  ghost particle are zero, and the force and the torque of a local particle are zero
  when the particle has no external force, no external torque and no swimming force
  of its own (it is not a swimmer, or its engine force is on the fluid).
\<close>

theorem init_forces_zero:
  "(\<forall>i < length ghosts.
      force (snd (init_forces feat cd particles ghosts) ! i) = vzero \<and>
      torque (snd (init_forces feat cd particles ghosts) ! i) = vzero) \<and>
   (\<forall>i < length particles.
      ext_force (particles ! i) = vzero \<and> ext_torque (particles ! i) = vzero \<and>
      \<not> (swimming (p_swimming (particles ! i)) \<and>
          \<not> is_engine_force_on_fluid (p_swimming (particles ! i))) \<longrightarrow>
      force (fst (init_forces feat cd particles ghosts) ! i) = vzero \<and>
      torque (fst (init_forces feat cd particles ghosts) ! i) = vzero)"
  by (simp add: init_forces_def init_forces_ghosts_def force_def torque_def
      external_force_f external_force_torque ParticleForce_zero_def vadd_vzero_left)

theorem init_forces_zero_witness:
  "force (snd (init_forces example_features example_director
                 [(example_particle 0 (3, 4, 0) vzero False)\<lparr>ext_torque := vzero\<rparr>]
                 [example_particle 1 (3, 4, 0) (1, 0, 0) True]) ! 0) = (0, 0, 0) \<and>
   torque (snd (init_forces example_features example_director
                 [(example_particle 0 (3, 4, 0) vzero False)\<lparr>ext_torque := vzero\<rparr>]
                 [example_particle 1 (3, 4, 0) (1, 0, 0) True]) ! 0) = (0, 0, 0) \<and>
   ext_force ((example_particle 0 (3, 4, 0) vzero False)\<lparr>ext_torque := vzero\<rparr>) = vzero \<and>
   force (fst (init_forces example_features example_director
                 [(example_particle 0 (3, 4, 0) vzero False)\<lparr>ext_torque := vzero\<rparr>]
                 [example_particle 1 (3, 4, 0) (1, 0, 0) True]) ! 0) = (0, 0, 0) \<and>
   torque (fst (init_forces example_features example_director
                 [(example_particle 0 (3, 4, 0) vzero False)\<lparr>ext_torque := vzero\<rparr>]
                 [example_particle 1 (3, 4, 0) (1, 0, 0) True]) ! 0) = (0, 0, 0)"
proof -
  let ?ps = "[(example_particle 0 (3, 4, 0) vzero False)\<lparr>ext_torque := vzero\<rparr>]"
  let ?gs = "[example_particle 1 (3, 4, 0) (1, 0, 0) True]"
  note th = init_forces_zero [of ?gs example_features example_director ?ps]
  note gh = th [THEN conjunct1, rule_format, of 0]
  note loc = th [THEN conjunct2, rule_format, of 0]
  have h: "ext_force (?ps ! 0) = vzero \<and> ext_torque (?ps ! 0) = vzero \<and>
           \<not> (swimming (p_swimming (?ps ! 0)) \<and> \<not> is_engine_force_on_fluid (p_swimming (?ps ! 0)))"
    by (simp add: example_particle_def)
  show ?thesis
    using gh loc h by (simp add: vzero_def)
qed

subsection \<open>The log of a run\<close>

lemma calls_invoke [simp]: "calls (invoke e c s) = calls s @ [Call c]"
  by (simp add: invoke_def split: prod.splits)

lemma max_oif_objects_invoke [simp]: "max_oif_objects (invoke e c s) = max_oif_objects s"
  by (simp add: invoke_def split: prod.splits)

lemma used_propagations_invoke [simp]: "used_propagations (invoke e c s) = used_propagations s"
  by (simp add: invoke_def split: prod.splits)

lemma force_cap_invoke [simp]: "force_cap (invoke e c s) = force_cap s"
  by (simp add: invoke_def split: prod.splits)

lemma store_invoke [simp]: "store (invoke e c s) = run e c (store s)"
  by (simp add: invoke_def store_def split: prod.splits)

lemma logs_only_refl: "logs_only P s s"
  by (simp add: logs_only_def)

lemma logs_only_invoke:
  "logs_only P s x \<Longrightarrow> P (Call c) \<Longrightarrow> logs_only P s (invoke e c x)"
  by (auto simp: logs_only_def)

lemma logs_only_when_do:
  "logs_only P s x \<Longrightarrow> P (Call c) \<Longrightarrow> logs_only P s (when_do b (invoke e c) x)"
  by (simp add: when_do_def logs_only_invoke)

lemma logs_only_calc_long_range_forces:
  "logs_only P s x \<Longrightarrow> P (Call CoulombCalcLongRangeForce) \<Longrightarrow>
   P (Call DipolesCalcLongRangeForce) \<Longrightarrow> logs_only P s (calc_long_range_forces feat e x)"
  by (simp add: calc_long_range_forces_def logs_only_when_do)

lemma logs_only_init_forces:
  "logs_only P s x \<Longrightarrow> P InitForces \<Longrightarrow>
   logs_only P s
     (case init_forces feat cd (local_particles x) (ghost_particles x) of
        (l, g) \<Rightarrow> x\<lparr>local_particles := l, ghost_particles := g,
                      calls := calls x @ [InitForces]\<rparr>)"
  by (auto simp: logs_only_def split: prod.splits)

lemma oif_loop_unfold:
  "oif_loop e i s =
     (if i < max_oif_objects s \<and> \<not> oif_degenerate (calc_oif_global e i (store s))
      then oif_loop e (i + 1) (invoke e (AddOifGlobalForces (calc_oif_global e i (store s)) i) s)
      else s)"
  by (subst oif_loop.simps) (simp add: Let_def oif_degenerate_def)

lemma oif_loop_induct [consumes 0, case_names step]:
  assumes "\<And>e i s.
             (i < max_oif_objects s \<Longrightarrow> \<not> oif_degenerate (calc_oif_global e i (store s)) \<Longrightarrow>
              Q e (i + 1) (invoke e (AddOifGlobalForces (calc_oif_global e i (store s)) i) s)) \<Longrightarrow>
             Q e i s"
  shows "Q e i s"
proof (induction e i s rule: oif_loop.induct)
  case (1 e i s)
  show ?case
  proof (rule assms)
    assume lt: "i < max_oif_objects s"
      and nd: "\<not> oif_degenerate (calc_oif_global e i (store s))"
    from nd have "\<not> (\<bar>fst (calc_oif_global e i (store s))\<bar> < 1 / 10 ^ 100 \<and>
                     \<bar>snd (calc_oif_global e i (store s))\<bar> < 1 / 10 ^ 100)"
      unfolding oif_degenerate_def .
    from "1.IH" [OF lt refl refl refl this]
    show "Q e (i + 1) (invoke e (AddOifGlobalForces (calc_oif_global e i (store s)) i) s)" .
  qed
qed

lemma logs_only_oif_loop:
  "logs_only P s x \<Longrightarrow> (\<And>av k. P (Call (AddOifGlobalForces av k))) \<Longrightarrow>
   logs_only P s (oif_loop e i x)"
proof (induction e i x rule: oif_loop_induct)
  case (step e i x)
  show ?case
  proof (cases "i < max_oif_objects x \<and> \<not> oif_degenerate (calc_oif_global e i (store x))")
    case True
    then show ?thesis
      using step by (subst oif_loop_unfold) (simp add: logs_only_invoke)
  next
    case False
    then show ?thesis
      using step.prems by (subst oif_loop_unfold) auto
  qed
qed

text \<open>
  A sequence of calls: each call has its effect on the store and is logged.
\<close>

lemma store_foldl_invoke:
  "store (foldl (\<lambda>x k. invoke e (c k) x) s ks) = foldl (\<lambda>st k. run e (c k) st) (store s) ks"
  by (induction ks arbitrary: s) simp_all

lemma calls_foldl_invoke:
  "calls (foldl (\<lambda>x k. invoke e (c k) x) s ks) = calls s @ map (\<lambda>k. Call (c k)) ks"
  by (induction ks arbitrary: s) simp_all

text \<open>
  The loop over the OIF objects, when the reduced area and volume of an object do not
  depend on the forces that \<^verbatim>\<open>add_oif_global_forces\<close> adds.
\<close>

lemma oif_loop_foldl:
  "(\<And>av k j st. calc_oif_global e j (run e (AddOifGlobalForces av k) st) =
                   calc_oif_global e j st) \<Longrightarrow>
   oif_loop e i s =
     foldl (\<lambda>x k. invoke e (AddOifGlobalForces (calc_oif_global e k (store s)) k) x) s
       (takeWhile (\<lambda>k. \<not> oif_degenerate (calc_oif_global e k (store s)))
          [i..max_oif_objects s - 1])"
proof (induction e i s rule: oif_loop_induct)
  case (step e i s)
  let ?av = "calc_oif_global e i (store s)"
  let ?s' = "invoke e (AddOifGlobalForces ?av i) s"
  show ?case
  proof (cases "i < max_oif_objects s \<and> \<not> oif_degenerate ?av")
    case True
    have unf: "oif_loop e i s = oif_loop e (i + 1) ?s'"
      using True by (subst oif_loop_unfold) simp
    have same: "calc_oif_global e k (store ?s') = calc_oif_global e k (store s)" for k
      by (simp add: step.prems)
    have upto: "[i..max_oif_objects s - 1] = i # [i + 1..max_oif_objects s - 1]"
      using True by (simp add: upto_rec1)
    have "oif_loop e (i + 1) ?s' =
            foldl (\<lambda>x k. invoke e (AddOifGlobalForces (calc_oif_global e k (store ?s')) k) x) ?s'
              (takeWhile (\<lambda>k. \<not> oif_degenerate (calc_oif_global e k (store ?s')))
                 [i + 1..max_oif_objects ?s' - 1])"
      using True step.prems by (intro step.IH) simp_all
    then show ?thesis
      using True by (simp only: unf same upto max_oif_objects_invoke) simp
  next
    case False
    have unf: "oif_loop e i s = s"
      using False by (subst oif_loop_unfold) auto
    have "takeWhile (\<lambda>k. \<not> oif_degenerate (calc_oif_global e k (store s)))
            [i..max_oif_objects s - 1] = []"
    proof (cases "i < max_oif_objects s")
      case True
      then have "[i..max_oif_objects s - 1] = i # [i + 1..max_oif_objects s - 1]"
        by (simp add: upto_rec1)
      then show ?thesis using False True by simp
    next
      case False
      then show ?thesis by simp
    qed
    then show ?thesis by (simp add: unf)
  qed
qed

lemma example_env_frame:
  "calc_oif_global example_env j (run example_env (AddOifGlobalForces av k) st) =
   calc_oif_global example_env j st"
  by (simp add: example_env_def)

text \<open>
  Claim C3 says that an object without area and volume is skipped and that the
  contribution is still applied to every other object above the threshold. It fails
  for an object behind the first object without area and volume: with three objects
  of which object 1 has neither area nor volume, object 2 has area 1 and volume 1 and
  gets no contribution. The loop ends at object 1.
\<close>

theorem oif_loop_skip_counterexample:
  "oif_degenerate (calc_oif_global example_env 1 (store example_system)) \<and>
   \<not> oif_degenerate (calc_oif_global example_env 2 (store example_system)) \<and>
   (2::int) < max_oif_objects example_system \<and>
   Call (AddOifGlobalForces (calc_oif_global example_env 2 (store example_system)) 2)
     \<notin> set (calls (oif_loop example_env 0 example_system)) \<and>
   calls (oif_loop example_env 0 example_system) = [Call (AddOifGlobalForces (1, 1) 0)]"
  by (simp add: oif_loop_unfold example_system_def example_env_def oif_degenerate_def
      store_def invoke_def)

text \<open>
  Claim C3, amended. The loop over the OIF objects ends at the first object whose
  reduced area and volume are both below the threshold, without an error: the
  contribution is applied, in the order of the indices, to exactly the objects before
  that one (to all \<open>max_oif_objects\<close> objects if there is none), and to no object from
  it on. So the state after the loop is the state before it with these calls of
  \<^verbatim>\<open>add_oif_global_forces\<close> made one after the other; the store after the loop is
  the store before it with their effects applied one after the other; and the log
  is extended by exactly these calls. The reduced area and volume of an object are
  taken not to depend on the forces that the contributions add.
\<close>

theorem oif_loop_stops_at_first_degenerate:
  assumes "\<And>av k j st. calc_oif_global e j (run e (AddOifGlobalForces av k) st) =
                          calc_oif_global e j st"
  shows "oif_loop e 0 s =
           foldl (\<lambda>x k. invoke e (AddOifGlobalForces (calc_oif_global e k (store s)) k) x) s
             (takeWhile (\<lambda>k. \<not> oif_degenerate (calc_oif_global e k (store s)))
                [0..max_oif_objects s - 1]) \<and>
         store (oif_loop e 0 s) =
           foldl (\<lambda>st k. run e (AddOifGlobalForces (calc_oif_global e k (store s)) k) st) (store s)
             (takeWhile (\<lambda>k. \<not> oif_degenerate (calc_oif_global e k (store s)))
                [0..max_oif_objects s - 1]) \<and>
         calls (oif_loop e 0 s) =
           calls s @
           map (\<lambda>k. Call (AddOifGlobalForces (calc_oif_global e k (store s)) k))
             (takeWhile (\<lambda>k. \<not> oif_degenerate (calc_oif_global e k (store s)))
                [0..max_oif_objects s - 1])"
  by (simp only: oif_loop_foldl [OF assms] store_foldl_invoke calls_foldl_invoke simp_thms)

theorem oif_loop_stops_at_first_degenerate_witness:
  "store (oif_loop example_env 0 example_system) =
     ([set_force (4, 4, 0) (example_particle 0 (3, 4, 0) (1, 0, 0) False)], [], ()) \<and>
   calls (oif_loop example_env 0 example_system) =
     calls example_system @ [Call (AddOifGlobalForces (1, 1) 0)]"
  using oif_loop_stops_at_first_degenerate [of example_env example_system, OF example_env_frame]
  by (simp add: example_system_def example_env_def oif_degenerate_def upto_rec1 store_def
      invoke_def force_def set_force_def example_particle_def)

subsection \<open>The end of a run of \<^verbatim>\<open>calculate_forces\<close>\<close>

text \<open>
  A step of the \<open>let\<close> chain of \<open>calculate_forces\<close>: what holds of the rest of the
  chain for every state that extends the log by admissible steps holds of the chain.
\<close>

lemma Let_logs_only:
  assumes "logs_only P s a" and "\<And>x. logs_only P s x \<Longrightarrow> Q (g x)"
  shows "Q (Let a g)"
  using assms by simp

lemma calculate_forces_tail:
  assumes "logs_only (\<lambda>x. x \<notin> tail_steps) s x"
  shows "ends_run feat e s
           (let s15 = when_do (VIRTUAL_SITES_RELATIVE feat \<and>
                                 and (used_propagations x)
                                     (or (TRANS_VS_RELATIVE e) (ROT_VS_RELATIVE e)) \<noteq> 0)
                          (invoke e VsRelativeBackTransferForcesAndTorques) x;
                  s16 = invoke e GhostsReduceForces s15;
                  s17 = invoke e ComFixedApply s16;
                  s18 = s17\<lparr>local_particles :=
                              force_capping (arith e) (local_particles s17) (force_cap s17),
                            calls := calls s17 @ [ForceCapping]\<rparr>;
                  s19 = s18\<lparr>recalc_forces := False, calls := calls s18 @ [RecalcForcesFalse]\<rparr>
              in s19)"
proof -
  from assms obtain pre where pre: "calls x = calls s @ pre" "list_all (\<lambda>x. x \<notin> tail_steps) pre"
    and up: "used_propagations x = used_propagations s" and fc: "force_cap x = force_cap s"
    by (auto simp: logs_only_def)
  have dis: "set pre \<inter> tail_steps = {}"
    using pre(2) by (auto simp: list_all_iff)
  show ?thesis
    unfolding ends_run_def
    apply (intro conjI exI [of _ x] exI [of _ pre])
    using pre(1) dis up fc
        apply (simp_all add: Let_def when_do_def invoke_def store_def split: prod.splits)
    done
qed

text \<open>
  Claim C4. Every run of \<^verbatim>\<open>calculate_forces\<close> ends as follows. From the state
  \<open>x\<close> reached by the earlier steps, none of which is one of the five last steps,
  the store is passed through the back-transfer of the forces and torques of the
  virtual sites (when it is compiled in and a relative virtual-site propagation is in
  use), then through the reduction of the ghost forces, then through the correction
  of the net force (\<^verbatim>\<open>comfixed->apply\<close>); then the forces of the local particles
  are capped; then \<open>recalc_forces\<close> is cleared. The resulting store is the store of
  the final state, the log of the final state ends with these steps in this order,
  and \<open>recalc_forces\<close> is false at the end.
\<close>

theorem calculate_forces_tail_order:
  "(\<exists>x pre.
        calls x = calls s @ pre \<and> set pre \<inter> tail_steps = {} \<and>
        store (calculate_forces feat e kT s) =
          (case run e ComFixedApply
                  (run e GhostsReduceForces
                     (if VIRTUAL_SITES_RELATIVE feat \<and>
              and (used_propagations s) (or (TRANS_VS_RELATIVE e) (ROT_VS_RELATIVE e)) \<noteq> 0
                      then run e VsRelativeBackTransferForcesAndTorques (store x)
                      else store x)) of
             (l, g, w) \<Rightarrow> (force_capping (arith e) l (force_cap s), g, w)) \<and>
        calls (calculate_forces feat e kT s) =
          calls x @
          (if VIRTUAL_SITES_RELATIVE feat \<and>
              and (used_propagations s) (or (TRANS_VS_RELATIVE e) (ROT_VS_RELATIVE e)) \<noteq> 0
           then [Call VsRelativeBackTransferForcesAndTorques] else []) @
          [Call GhostsReduceForces, Call ComFixedApply, ForceCapping, RecalcForcesFalse]) \<and>
     \<not> recalc_forces (calculate_forces feat e kT s)"
proof -
  let ?P = "\<lambda>x. x \<notin> tail_steps"
  note step = Let_logs_only [where P = ?P and s = s and Q = "ends_run feat e s"]
  have "ends_run feat e s (calculate_forces feat e kT s)"
    unfolding calculate_forces_def
    apply (rule step, rule logs_only_when_do, rule logs_only_refl, simp add: tail_steps_def)
    apply (rule step, erule logs_only_when_do, simp add: tail_steps_def)
    apply (rule step, erule logs_only_invoke, simp add: tail_steps_def)
    apply (rule step, erule logs_only_when_do, simp add: tail_steps_def)
    apply (rule step, erule logs_only_when_do, simp add: tail_steps_def)
    apply (rule step, erule logs_only_init_forces, simp add: tail_steps_def)
    apply (rule step, erule logs_only_invoke, simp add: tail_steps_def)
    apply (rule step, erule logs_only_calc_long_range_forces, simp add: tail_steps_def,
           simp add: tail_steps_def)
    apply (rule step, erule logs_only_invoke, simp add: tail_steps_def)
    apply (rule step, erule logs_only_invoke, simp add: tail_steps_def)
    apply (rule step, erule logs_only_oif_loop, simp add: tail_steps_def)
    apply (rule step, erule logs_only_invoke, simp add: tail_steps_def)
    apply (rule step, erule logs_only_when_do, simp add: tail_steps_def)
    apply (rule step, erule logs_only_when_do, simp add: tail_steps_def)
    apply (erule calculate_forces_tail)
    done
  then show ?thesis
    unfolding ends_run_def .
qed

theorem calculate_forces_tail_order_witness:
  "(\<exists>x. store (calculate_forces example_features example_env 1 example_system) =
          (case store x of (l, g, w) \<Rightarrow> (force_capping exact_arith l 1, g, w)) \<and>
        calls (calculate_forces example_features example_env 1 example_system) =
          calls x @
          [Call VsRelativeBackTransferForcesAndTorques, Call GhostsReduceForces,
           Call ComFixedApply, ForceCapping, RecalcForcesFalse]) \<and>
   \<not> recalc_forces (calculate_forces example_features example_env 1 example_system)"
proof -
  have c: "VIRTUAL_SITES_RELATIVE example_features" "used_propagations example_system = 256"
    "TRANS_VS_RELATIVE example_env = 256" "ROT_VS_RELATIVE example_env = 512"
    "force_cap example_system = 1" "arith example_env = exact_arith"
    by (simp_all add: example_features_def example_env_def example_system_def)
  have r: "run example_env VsRelativeBackTransferForcesAndTorques st = st"
    "run example_env GhostsReduceForces st = st" "run example_env ComFixedApply st = st" for st
    by (simp_all add: example_env_def split: prod.splits)
  have b: "and (256::int) (or 256 512) \<noteq> 0"
    by simp
  from calculate_forces_tail_order
    [where s = example_system and feat = example_features and e = example_env and kT = 1]
  obtain x where
    "store (calculate_forces example_features example_env 1 example_system) =
       (case run example_env ComFixedApply
               (run example_env GhostsReduceForces
                  (if VIRTUAL_SITES_RELATIVE example_features \<and>
                      and (used_propagations example_system)
                          (or (TRANS_VS_RELATIVE example_env) (ROT_VS_RELATIVE example_env)) \<noteq> 0
                   then run example_env VsRelativeBackTransferForcesAndTorques (store x)
                   else store x)) of
          (l, g, w) \<Rightarrow> (force_capping (arith example_env) l (force_cap example_system), g, w))"
    and "calls (calculate_forces example_features example_env 1 example_system) =
       calls x @
       (if VIRTUAL_SITES_RELATIVE example_features \<and>
           and (used_propagations example_system)
               (or (TRANS_VS_RELATIVE example_env) (ROT_VS_RELATIVE example_env)) \<noteq> 0
        then [Call VsRelativeBackTransferForcesAndTorques] else []) @
       [Call GhostsReduceForces, Call ComFixedApply, ForceCapping, RecalcForcesFalse]"
    and nr: "\<not> recalc_forces (calculate_forces example_features example_env 1 example_system)"
    by blast
  then have "store (calculate_forces example_features example_env 1 example_system) =
          (case store x of (l, g, w) \<Rightarrow> (force_capping exact_arith l 1, g, w)) \<and>
        calls (calculate_forces example_features example_env 1 example_system) =
          calls x @
          [Call VsRelativeBackTransferForcesAndTorques, Call GhostsReduceForces,
           Call ComFixedApply, ForceCapping, RecalcForcesFalse]"
    using b c r by simp
  then show ?thesis
    using nr by blast
qed

subsection \<open>The cutoff of the Verlet criterion\<close>

text \<open>
  Claim C7. The effective list-validity cutoff of the Verlet criterion that
  \<^verbatim>\<open>calculate_forces\<close> constructs is the maximum of the Verlet skin and the enabled
  cutoffs (the non-bonded interaction range, the electrostatic, the magnetic and the
  collision-detection cutoff): it is at least the skin and at least every enabled
  cutoff, and it is the skin or one of the enabled cutoffs. A cutoff is enabled when
  its feature is compiled in (for the electrostatic and the magnetic one) and its
  value is not the inactive sentinel; so a disabled cutoff, whatever the sentinel,
  never lowers the maximum of the others.
\<close>

theorem effective_cutoff_maximum:
  "get_verlet_skin c \<le> effective_cutoff inactive (verlet_criterion feat inactive c) \<and>
   (get_interaction_range c \<noteq> inactive \<longrightarrow>
      get_interaction_range c \<le> effective_cutoff inactive (verlet_criterion feat inactive c)) \<and>
   (ELECTROSTATICS feat \<and> coulomb_cutoff c \<noteq> inactive \<longrightarrow>
      coulomb_cutoff c \<le> effective_cutoff inactive (verlet_criterion feat inactive c)) \<and>
   (DIPOLES feat \<and> dipoles_cutoff c \<noteq> inactive \<longrightarrow>
      dipoles_cutoff c \<le> effective_cutoff inactive (verlet_criterion feat inactive c)) \<and>
   (collision_detection_cutoff c \<noteq> inactive \<longrightarrow>
      collision_detection_cutoff c \<le> effective_cutoff inactive (verlet_criterion feat inactive c)) \<and>
   (effective_cutoff inactive (verlet_criterion feat inactive c) = get_verlet_skin c \<or>
    effective_cutoff inactive (verlet_criterion feat inactive c) = get_interaction_range c \<and>
      get_interaction_range c \<noteq> inactive \<or>
    effective_cutoff inactive (verlet_criterion feat inactive c) = coulomb_cutoff c \<and>
      ELECTROSTATICS feat \<and> coulomb_cutoff c \<noteq> inactive \<or>
    effective_cutoff inactive (verlet_criterion feat inactive c) = dipoles_cutoff c \<and>
      DIPOLES feat \<and> dipoles_cutoff c \<noteq> inactive \<or>
    effective_cutoff inactive (verlet_criterion feat inactive c) = collision_detection_cutoff c \<and>
      collision_detection_cutoff c \<noteq> inactive)"
proof -
  define xs where
    "xs = [get_interaction_range c,
           if ELECTROSTATICS feat then coulomb_cutoff c else inactive,
           if DIPOLES feat then dipoles_cutoff c else inactive,
           collision_detection_cutoff c]"
  define S where "S = set (get_verlet_skin c # filter (\<lambda>x. x \<noteq> inactive) xs)"
  define E where "E = effective_cutoff inactive (verlet_criterion feat inactive c)"
  have eq: "E = Max S"
    by (simp add: E_def S_def xs_def effective_cutoff_def verlet_criterion_def Let_def)
  have S: "S = insert (get_verlet_skin c) {x \<in> set xs. x \<noteq> inactive}"
    by (simp add: S_def)
  have fin: "finite S" and ne: "S \<noteq> {}"
    by (simp_all add: S)
  have ge: "x \<le> E" if "x \<in> S" for x
    unfolding eq using fin that by (rule Max_ge)
  have "E \<in> S"
    unfolding eq using fin ne by (rule Max_in)
  then have "E = get_verlet_skin c \<or> E \<in> set xs \<and> E \<noteq> inactive"
    by (simp add: S)
  then have mem: "E = get_verlet_skin c \<or>
    E = get_interaction_range c \<and> get_interaction_range c \<noteq> inactive \<or>
    E = coulomb_cutoff c \<and> ELECTROSTATICS feat \<and> coulomb_cutoff c \<noteq> inactive \<or>
    E = dipoles_cutoff c \<and> DIPOLES feat \<and> dipoles_cutoff c \<noteq> inactive \<or>
    E = collision_detection_cutoff c \<and> collision_detection_cutoff c \<noteq> inactive"
    unfolding xs_def by (auto split: if_splits)
  have "get_verlet_skin c \<le> E"
    by (rule ge) (simp add: S)
  moreover have "get_interaction_range c \<le> E" if "get_interaction_range c \<noteq> inactive"
    using that by (intro ge) (simp add: S xs_def)
  moreover have "coulomb_cutoff c \<le> E" if "ELECTROSTATICS feat \<and> coulomb_cutoff c \<noteq> inactive"
    using that by (intro ge) (simp add: S xs_def)
  moreover have "dipoles_cutoff c \<le> E" if "DIPOLES feat \<and> dipoles_cutoff c \<noteq> inactive"
    using that by (intro ge) (simp add: S xs_def)
  moreover have "collision_detection_cutoff c \<le> E" if "collision_detection_cutoff c \<noteq> inactive"
    using that by (intro ge) (simp add: S xs_def)
  ultimately show ?thesis
    unfolding E_def [symmetric] using mem by blast
qed


theorem effective_cutoff_maximum_witness:
  "get_interaction_range example_cutoffs \<noteq> - 1 \<and>
   ELECTROSTATICS example_features \<and> coulomb_cutoff example_cutoffs \<noteq> - 1 \<and>
   effective_cutoff (- 1) (verlet_criterion example_features (- 1) example_cutoffs) = 3.5 \<and>
   \<not> ELECTROSTATICS example_features_neutral \<and>
   effective_cutoff (- 1) (verlet_criterion example_features_neutral (- 1) example_cutoffs) = 2.5"
proof -
  define E where "E = effective_cutoff (- 1) (verlet_criterion example_features (- 1) example_cutoffs)"
  define N where
    "N = effective_cutoff (- 1) (verlet_criterion example_features_neutral (- 1) example_cutoffs)"
  note a = effective_cutoff_maximum [of example_cutoffs "- 1" example_features, folded E_def]
  note b = effective_cutoff_maximum [of example_cutoffs "- 1" example_features_neutral, folded N_def]
  have c: "get_verlet_skin example_cutoffs = 2 / 5" "get_interaction_range example_cutoffs = 5 / 2"
    "coulomb_cutoff example_cutoffs = 7 / 2" "dipoles_cutoff example_cutoffs = - 1"
    "collision_detection_cutoff example_cutoffs = - 1"
    by (simp_all add: example_cutoffs_def)
  have f: "ELECTROSTATICS example_features" "\<not> ELECTROSTATICS example_features_neutral"
    "\<not> DIPOLES example_features_neutral"
    by (simp_all add: example_features_def example_features_neutral_def)
  have "7 / 2 \<le> E"
    using a [THEN conjunct2, THEN conjunct2, THEN conjunct1] f c by simp
  moreover have "E = 2 / 5 \<or> E = 5 / 2 \<or> E = 7 / 2"
    using a [THEN conjunct2, THEN conjunct2, THEN conjunct2, THEN conjunct2, THEN conjunct2]
    unfolding c by blast
  ultimately have E: "E = 7 / 2"
    by auto
  have "5 / 2 \<le> N"
    using b [THEN conjunct2, THEN conjunct1] c by simp
  moreover have "N = 2 / 5 \<or> N = 5 / 2"
    using b [THEN conjunct2, THEN conjunct2, THEN conjunct2, THEN conjunct2, THEN conjunct2] f
    unfolding c by blast
  ultimately have N: "N = 5 / 2"
    by auto
  show ?thesis
    using E N c f unfolding E_def N_def by simp
qed

subsection \<open>Gay-Berne parameters\<close>

text \<open>
  Claim C10. When the lookup of the parameter record of the type pair fails,
  \<^verbatim>\<open>gay_berne_set_params\<close> returns \<^verbatim>\<open>ES_ERROR\<close> and leaves the state as it
  is. Otherwise it returns \<^verbatim>\<open>ES_OK\<close>; the record of the pair then holds the
  seven given parameters, \<open>chi1 = (k1\<^sup>2 - 1) / (k1\<^sup>2 + 1)\<close> and
  \<open>chi2 = (pow k2 (1 / mu) - 1) / (pow k2 (1 / mu) + 1)\<close>, its parameters of other
  interactions are unchanged, the records of the other pairs are unchanged, and the
  record has been broadcast.
\<close>

theorem gay_berne_set_params_result:
  "(get_ia_param_safe (ia_params st) a b = None \<longrightarrow>
      gay_berne_set_params pow st a b eps sig cut' k1 k2 mu nu = (ES_ERROR, st)) \<and>
   (\<forall>data. get_ia_param_safe (ia_params st) a b = Some data \<longrightarrow>
      (\<exists>st' data'.
         gay_berne_set_params pow st a b eps sig cut' k1 k2 mu nu = (ES_OK, st') \<and>
         ia_params st' (a, b) = Some data' \<and>
         gb_eps (gb data') = eps \<and> gb_sig (gb data') = sig \<and> gb_cut (gb data') = cut' \<and>
         gb_k1 (gb data') = k1 \<and> gb_k2 (gb data') = k2 \<and> gb_mu (gb data') = mu \<and>
         gb_nu (gb data') = nu \<and>
         gb_chi1 (gb data') = (k1\<^sup>2 - 1) / (k1\<^sup>2 + 1) \<and>
         gb_chi2 (gb data') = (pow k2 (1 / mu) - 1) / (pow k2 (1 / mu) + 1) \<and>
         data'\<lparr>gb := gb data\<rparr> = data \<and>
         (\<forall>k. k \<noteq> (a, b) \<longrightarrow> ia_params st' k = ia_params st k) \<and>
         ia_bcasts st' = ia_bcasts st @ [(a, b)]))"
  by (simp add: gay_berne_set_params_def Let_def power2_eq_square)

theorem gay_berne_set_params_result_witness:
  "get_ia_param_safe (ia_params example_ia_state) 5 7 = None \<and>
   gay_berne_set_params (powr) example_ia_state 5 7 1 2 3 3 3 1 5 = (ES_ERROR, example_ia_state) \<and>
   get_ia_param_safe (ia_params example_ia_state) 0 1 \<noteq> None \<and>
   fst (gay_berne_set_params (powr) example_ia_state 0 1 1 2 3 3 3 1 5) = ES_OK \<and>
   map_option (\<lambda>d. (gb_k1 (gb d), gb_chi1 (gb d), gb_chi2 (gb d)))
     (ia_params (snd (gay_berne_set_params (powr) example_ia_state 0 1 1 2 3 3 3 1 5)) (0, 1)) =
     Some (3, 4 / 5, 1 / 2)"
proof -
  note err = gay_berne_set_params_result [of example_ia_state 5 7 "(powr)" 1 2 3 3 3 1 5,
      THEN conjunct1]
  note ok = gay_berne_set_params_result [of example_ia_state 0 1 "(powr)" 1 2 3 3 3 1 5,
      THEN conjunct2, rule_format]
  have none: "get_ia_param_safe (ia_params example_ia_state) 5 7 = None"
    by (simp add: get_ia_param_safe_def example_ia_state_def)
  obtain d where some: "get_ia_param_safe (ia_params example_ia_state) 0 1 = Some d"
    by (simp add: get_ia_param_safe_def example_ia_state_def)
  from ok [OF some] obtain st' data' where
    r: "gay_berne_set_params (powr) example_ia_state 0 1 1 2 3 3 3 1 5 = (ES_OK, st')"
      "ia_params st' (0, 1) = Some data'" "gb_k1 (gb data') = 3"
      "gb_chi1 (gb data') = (3\<^sup>2 - 1) / (3\<^sup>2 + 1)"
      "gb_chi2 (gb data') = (3 powr (1 / 1) - 1) / (3 powr (1 / 1) + 1)"
    by blast
  show ?thesis
    using err none some r by simp
qed


end
